theory Spec2Isabelle
  imports Main
begin

section \<open>Values shared by all pages\<close>

text \<open>
  Identifiers arrive from the server as JSON numbers or strings and are only ever
  compared with \<^verbatim>\<open>===\<close> / \<^verbatim>\<open>!==\<close>, which on two numbers or two strings is
  plain equality and between a number and a string is always false.  That is
  exactly equality of the datatype below.
\<close>

datatype ident = Num int | Str string


type_synonym timestamp = nat

text \<open>The failures of the Fetch Gateway (a rejected promise), and the exceptions a
  handler can see: a rejected gateway call, or the \<^verbatim>\<open>TypeError\<close> raised by reading
  a property of \<^verbatim>\<open>null\<close> / \<^verbatim>\<open>undefined\<close>.\<close>

datatype gw_error = NetworkError | AuthError | ServerError

datatype js_error = TypeError | Rejected gw_error

text \<open>Text that the user types is a JavaScript string: a sequence of UTF-16 code units,
  each a number below 65536.  The fixed strings of the program (messages, type tags)
  stay HOL strings; \<open>utf16\<close> gives the code units of an ASCII literal.\<close>

type_synonym code_unit = nat

type_synonym js_string = "code_unit list"

definition utf16 :: "string \<Rightarrow> js_string" where
  "utf16 s = map of_char s"

text \<open>\<^verbatim>\<open>String.prototype.trim\<close> removes white space and line terminators from both
  ends.  White space is TAB, VT, FF, U+FEFF and the Unicode space separators (U+0020,
  U+00A0, U+1680, U+2000 to U+200A, U+202F, U+205F, U+3000); the line terminators are
  LF, CR, U+2028 and U+2029.  All of them are single code units.\<close>

definition is_space :: "code_unit \<Rightarrow> bool" where
  "is_space c =
     (c \<in> set [0x0009, 0x000A, 0x000B, 0x000C, 0x000D, 0x0020, 0x00A0, 0x1680,
                0x2028, 0x2029, 0x202F, 0x205F, 0x3000, 0xFEFF]
      \<or> (0x2000 \<le> c \<and> c \<le> 0x200A))"

definition trim :: "js_string \<Rightarrow> js_string" where
  "trim s = rev (dropWhile is_space (rev (dropWhile is_space s)))"

text \<open>\<^verbatim>\<open>Array.prototype.map\<close> with a callback that may throw: the first exception
  aborts the whole map.\<close>

fun mapE :: "('a \<Rightarrow> js_error + 'b) \<Rightarrow> 'a list \<Rightarrow> js_error + 'b list" where
  "mapE f [] = Inr []"
| "mapE f (x # xs) =
     (case f x of
        Inl e \<Rightarrow> Inl e
      | Inr y \<Rightarrow> (case mapE f xs of Inl e \<Rightarrow> Inl e | Inr ys \<Rightarrow> Inr (y # ys)))"

text \<open>The expression that recurs in every handler,
  \<^verbatim>\<open>items.map((x) => { if (x.id === id) { return <updated x>; } return x; })\<close>,
  with the way the updated item is built as a parameter.\<close>

definition patchById ::
  "('a \<Rightarrow> ident) \<Rightarrow> ident \<Rightarrow> ('a \<Rightarrow> js_error + 'a) \<Rightarrow> 'a list \<Rightarrow> js_error + 'a list" where
  "patchById get_id i upd items = mapE (\<lambda>x. if get_id x = i then upd x else Inr x) items"

section \<open>Data model\<close>

record user =
  user_id :: ident
  user_name :: string
  user_profileImage :: string
  user_token :: string

record like =
  like_userId :: ident
  like_userName :: string

record comment =
  comment_id :: ident
  comment_userId :: ident
  comment_userName :: string
  comment_content :: js_string
  comment_createdAt :: timestamp
  comment_updatedAt :: timestamp

text \<open>A learning plan as the page holds it.  \<open>likes\<close> and \<open>comments\<close> are
  \<open>None\<close> when the field is missing (\<^verbatim>\<open>undefined\<close> or \<^verbatim>\<open>null\<close>): the page
  reads \<^verbatim>\<open>?.likes?.some(...)\<close> with optional chaining, but
  \<^verbatim>\<open>plan.likes.filter\<close> and \<^verbatim>\<open>plan.comments.map\<close> without.\<close>

record plan =
  plan_id :: ident
  plan_userId :: ident
  plan_userName :: string
  plan_title :: string
  plan_description :: string
  plan_topics :: string
  plan_resources :: string
  likes :: "like list option"
  comments :: "comment list option"

text \<open>The creation form (\<^verbatim>\<open>useForm\<close> default values) and the request bodies.\<close>

record plan_form =
  form_title :: js_string
  form_description :: js_string
  form_topics :: js_string
  form_resources :: js_string

record plan_data =
  pd_userId :: ident
  pd_userName :: string
  pd_userProfileImage :: string
  pd_form :: plan_form

record comment_data =
  cd_userId :: ident
  cd_userName :: string
  cd_content :: js_string

text \<open>An event, as the events page lists it and as its form edits it.  The form of a
  new event has no \<^verbatim>\<open>id\<close>.\<close>

record event =
  event_id :: "ident option"
  event_title :: string
  event_description :: string
  event_date :: string
  event_location :: string
  event_category :: string
  event_maxParticipants :: string

record resource =
  resource_id :: ident
  resource_title :: string
  resource_description :: string
  resource_url :: string

record resource_payload =
  payload_title :: string
  payload_description :: string
  payload_url :: string

section \<open>Effects\<close>

text \<open>Template-literal URLs of the pages that call \<^verbatim>\<open>axios\<close> directly, kept as the
  sequence of their literal and interpolated parts.\<close>

datatype seg = Lit string | Val ident

type_synonym url = "seg list"


datatype body = NoBody | EventBody event | ResourceBody resource_payload

text \<open>One constructor per function of the API modules the pages import, and one per
  \<^verbatim>\<open>axios\<close> method.\<close>

datatype request =
    GetAllLearningPlans "string option"
  | CreateLearningPlan ident plan_data string
  | DeleteLearningPlan ident string
  | AddLike ident like string
  | RemoveLike ident ident string
  | AddComment ident comment_data string
  | UpdateComment ident ident comment "string option"
  | UpdateLearningProgressComment ident ident comment "string option"
  | UpdateLearningPlanComment ident ident comment "string option"
  | DeleteComment ident ident ident "string option"
  | DeleteLearningProgressComment ident ident ident "string option"
  | DeleteLearningPlanComment ident ident ident "string option"
  | AxiosGet url
  | AxiosPost url body
  | AxiosPut url body
  | AxiosDelete url

text \<open>Everything a handler does besides updating component state, in the order it
  happens.  \<open>Toast\<close>s are the user-facing notifications; \<open>OpenModal\<close> and
  \<open>CloseModal\<close> are the calls into the confirmation-modal hook; \<open>Throw\<close> is an
  exception that leaves the handler (for an \<^verbatim>\<open>async\<close> handler: its promise rejects).\<close>

datatype toast = Error string | Success string

datatype effect =
    Call request
  | Toast toast
  | ConsoleError string
  | FormReset
  | WindowConfirm string
  | OpenModal
  | CloseModal
  | Throw js_error

fun is_call :: "effect \<Rightarrow> bool" where
  "is_call (Call _) = True"
| "is_call _ = False"




definition calls :: "effect list \<Rightarrow> effect list" where
  "calls es = filter is_call es"




text \<open>A handler takes the component state and returns the new state together with
  the effects it performed.  \<open>andThen\<close> runs two handlers one after the other.\<close>

type_synonym 's handler = "'s \<Rightarrow> 's \<times> effect list"

definition andThen :: "'s handler \<Rightarrow> 's handler \<Rightarrow> 's handler" where
  "andThen f g st = (let (s1, e1) = f st; (s2, e2) = g s1 in (s2, e1 @ e2))"

definition skip :: "'s handler" where
  "skip st = (st, [])"

section \<open>The confirmation modal\<close>

text \<open>The state of the hook: whether the modal is open, and the configuration of the
  last \<^verbatim>\<open>openModal\<close>.  The \<^verbatim>\<open>onConfirm\<close> closure is kept as a value of type \<open>'cb\<close>
  that records what the closure captured.\<close>

record 'cb modal_config =
  cfg_title :: string
  cfg_message :: string
  cfg_confirmText :: string
  cfg_cancelText :: string
  cfg_type :: string
  cfg_onConfirm :: 'cb

record 'cb modal_state =
  isOpen :: bool
  config :: "'cb modal_config"

text \<open>Modelled from the spec: \<^verbatim>\<open>openModal\<close> of the hook \<^verbatim>\<open>useConfirmModal\<close>
  (\<^verbatim>\<open>hooks/useConfirmModal\<close>), which the pages import but which is not among the
  sources.  The spec gives the hook two states, \<open>closed\<close> and \<open>open\<close>;
  \<^verbatim>\<open>openModal(config)\<close> goes to \<open>open\<close>, capturing title, message, button labels and
  callback, and overwrites whatever was captured before (nothing is queued).\<close>

definition openModal :: "'cb modal_config \<Rightarrow> 'cb modal_state \<Rightarrow> 'cb modal_state" where
  "openModal cfg m = \<lparr>isOpen = True, config = cfg\<rparr>"

text \<open>Modelled from the spec: \<^verbatim>\<open>closeModal\<close> of the same hook, which goes back to
  \<open>closed\<close>.\<close>

definition closeModal :: "'cb modal_state \<Rightarrow> 'cb modal_state" where
  "closeModal m = m\<lparr>isOpen := False\<rparr>"

text \<open>The component \<^verbatim>\<open>ConfirmModal\<close>: it renders nothing unless \<^verbatim>\<open>isOpen\<close>; the
  backdrop, the X button and the cancel button call \<^verbatim>\<open>onClose\<close>; the confirm button
  runs \<^verbatim>\<open>onConfirm(); onClose();\<close>.  A click inside the dialog stops propagating
  and never reaches the backdrop.\<close>

datatype modal_button = Backdrop | CloseX | CancelButton | ConfirmButton

definition ConfirmModal ::
  "bool \<Rightarrow> 's handler \<Rightarrow> 's handler \<Rightarrow> modal_button \<Rightarrow> 's handler" where
  "ConfirmModal is_open onClose onConfirm b st =
     (if \<not> is_open then (st, [])
      else case b of
             ConfirmButton \<Rightarrow> andThen onConfirm onClose st
           | _ \<Rightarrow> onClose st)"

section \<open>The learning-plan page\<close>

text \<open>The functions of \<^verbatim>\<open>api/learningPlanAPI\<close>, \<^verbatim>\<open>api/skillSharingAPI\<close> and
  \<^verbatim>\<open>api/learningProgressAPI\<close> that the page and the comment component import: the
  Fetch Gateway.  Each returns the \<^verbatim>\<open>data\<close> of the response, or fails.  The calls
  whose response the page never reads return a body of type \<open>plan option\<close>.\<close>

record api =
  getAllLearningPlans :: "string option \<Rightarrow> gw_error + plan list"
  createLearningPlan :: "ident \<Rightarrow> plan_data \<Rightarrow> string \<Rightarrow> gw_error + plan"
  deleteLearningPlan :: "ident \<Rightarrow> string \<Rightarrow> gw_error + plan option"
  addLike :: "ident \<Rightarrow> like \<Rightarrow> string \<Rightarrow> gw_error + plan"
  removeLike :: "ident \<Rightarrow> ident \<Rightarrow> string \<Rightarrow> gw_error + plan option"
  addComment :: "ident \<Rightarrow> comment_data \<Rightarrow> string \<Rightarrow> gw_error + plan"
  updateComment :: "ident \<Rightarrow> ident \<Rightarrow> comment \<Rightarrow> string option \<Rightarrow> gw_error + plan option"
  updateLearningProgressComment ::
    "ident \<Rightarrow> ident \<Rightarrow> comment \<Rightarrow> string option \<Rightarrow> gw_error + plan option"
  updateLearningPlanComment ::
    "ident \<Rightarrow> ident \<Rightarrow> comment \<Rightarrow> string option \<Rightarrow> gw_error + plan option"
  deleteComment :: "ident \<Rightarrow> ident \<Rightarrow> ident \<Rightarrow> string option \<Rightarrow> gw_error + plan option"
  deleteLearningProgressComment ::
    "ident \<Rightarrow> ident \<Rightarrow> ident \<Rightarrow> string option \<Rightarrow> gw_error + plan option"
  deleteLearningPlanComment ::
    "ident \<Rightarrow> ident \<Rightarrow> ident \<Rightarrow> string option \<Rightarrow> gw_error + plan option"

text \<open>What the \<^verbatim>\<open>onConfirm\<close> closure of \<^verbatim>\<open>handleDelete\<close> captures: the plan id, the
  \<^verbatim>\<open>learningPlans\<close> of the render that built it, and the current user.\<close>

datatype plan_callback = DeletePlanCallback ident "plan list" "user option"

record lp_state =
  learningPlans :: "plan list"
  loading :: bool
  isSubmitting :: bool
  editingPlan :: "plan option"
  modalState :: "plan_callback modal_state"



text \<open>\<^verbatim>\<open>learningPlans.find((p) => p.id === planId)?.likes?.some((like) => like.userId === currentUser.id)\<close>;
  \<^verbatim>\<open>undefined\<close> counts as false in the \<^verbatim>\<open>if\<close> that follows.\<close>

definition isLiked :: "plan list \<Rightarrow> ident \<Rightarrow> ident \<Rightarrow> bool" where
  "isLiked plans planId uid =
     (case find (\<lambda>p. plan_id p = planId) plans of
        None \<Rightarrow> False
      | Some p \<Rightarrow>
          (case likes p of
             None \<Rightarrow> False
           | Some ls \<Rightarrow> list_ex (\<lambda>l. like_userId l = uid) ls))"

text \<open>\<^verbatim>\<open>{...plan, likes: plan.likes.filter((like) => like.userId !== currentUser.id)}\<close>\<close>

definition withoutLike :: "ident \<Rightarrow> plan \<Rightarrow> js_error + plan" where
  "withoutLike uid p =
     (case likes p of
        None \<Rightarrow> Inl TypeError
      | Some ls \<Rightarrow> Inr (p\<lparr>likes := Some (filter (\<lambda>l. like_userId l \<noteq> uid) ls)\<rparr>))"

definition handleLike :: "api \<Rightarrow> user option \<Rightarrow> ident \<Rightarrow> lp_state handler" where
  "handleLike gw currentUser planId st =
     (case currentUser of
        None \<Rightarrow> (st, [Toast (Error ''You must be logged in to like this plan'')])
      | Some u \<Rightarrow>
          if isLiked (learningPlans st) planId (user_id u)
          then
            (let req = RemoveLike planId (user_id u) (user_token u);
                 failed = (st, [Call req, ConsoleError ''Error toggling like:'',
                                Toast (Error ''Failed to process like'')])
             in case removeLike gw planId (user_id u) (user_token u) of
                  Inl e \<Rightarrow> failed
                | Inr _ \<Rightarrow>
                    (case patchById plan_id planId (withoutLike (user_id u)) (learningPlans st) of
                       Inl e \<Rightarrow> failed
                     | Inr plans \<Rightarrow> (st\<lparr>learningPlans := plans\<rparr>, [Call req])))
          else
            (let likeData = \<lparr>like_userId = user_id u, like_userName = user_name u\<rparr>;
                 req = AddLike planId likeData (user_token u)
             in case addLike gw planId likeData (user_token u) of
                  Inl e \<Rightarrow>
                    (st, [Call req, ConsoleError ''Error toggling like:'',
                          Toast (Error ''Failed to process like'')])
                | Inr data \<Rightarrow>
                    (case patchById plan_id planId (\<lambda>plan. Inr data) (learningPlans st) of
                       Inl e \<Rightarrow>
                         (st, [Call req, ConsoleError ''Error toggling like:'',
                               Toast (Error ''Failed to process like'')])
                     | Inr plans \<Rightarrow> (st\<lparr>learningPlans := plans\<rparr>, [Call req]))))"

text \<open>\<^verbatim>\<open>handleAddComment\<close> notifies and then throws the error again, for the comment form
  that called it.\<close>

definition handleAddComment ::
  "api \<Rightarrow> user option \<Rightarrow> ident \<Rightarrow> comment_data \<Rightarrow> lp_state handler" where
  "handleAddComment gw currentUser planId commentData st =
     (case currentUser of
        None \<Rightarrow> (st, [Toast (Error ''You must be logged in to comment'')])
      | Some u \<Rightarrow>
          (let req = AddComment planId commentData (user_token u)
           in case addComment gw planId commentData (user_token u) of
               Inl e \<Rightarrow>
                 (st, [Call req, ConsoleError ''Error adding comment:'',
                       Toast (Error ''Failed to add comment''), Throw (Rejected e)])
             | Inr data \<Rightarrow>
                 (case patchById plan_id planId (\<lambda>plan. Inr data) (learningPlans st) of
                    Inl e \<Rightarrow>
                      (st, [Call req, ConsoleError ''Error adding comment:'',
                            Toast (Error ''Failed to add comment''), Throw e])
                  | Inr plans \<Rightarrow> (st\<lparr>learningPlans := plans\<rparr>, [Call req]))))"

text \<open>The two local patches of a plan's comments.  \<open>now\<close> is the reading of the clock
  (\<^verbatim>\<open>new Date()\<close>), taken to be the same for every comment one call touches.
  Neither handler has a \<^verbatim>\<open>try\<close>: reading \<^verbatim>\<open>plan.comments\<close> of a plan without comments
  throws out of the handler before \<^verbatim>\<open>setLearningPlans\<close> is reached.\<close>

definition withUpdatedComment ::
  "ident \<Rightarrow> js_string \<Rightarrow> timestamp \<Rightarrow> plan \<Rightarrow> js_error + plan" where
  "withUpdatedComment commentId updatedContent now p =
     (case comments p of
        None \<Rightarrow> Inl TypeError
      | Some cs \<Rightarrow>
          Inr (p\<lparr>comments :=
                  Some (map (\<lambda>c. if comment_id c = commentId
                                  then c\<lparr>comment_content := updatedContent,
                                         comment_updatedAt := now\<rparr>
                                  else c) cs)\<rparr>))"

definition withoutComment :: "ident \<Rightarrow> plan \<Rightarrow> js_error + plan" where
  "withoutComment commentId p =
     (case comments p of
        None \<Rightarrow> Inl TypeError
      | Some cs \<Rightarrow> Inr (p\<lparr>comments := Some (filter (\<lambda>c. comment_id c \<noteq> commentId) cs)\<rparr>))"

definition handleUpdateComment ::
  "timestamp \<Rightarrow> ident \<Rightarrow> ident \<Rightarrow> js_string \<Rightarrow> lp_state handler" where
  "handleUpdateComment now planId commentId updatedContent st =
     (case patchById plan_id planId (withUpdatedComment commentId updatedContent now)
             (learningPlans st) of
        Inl e \<Rightarrow> (st, [Throw e])
      | Inr plans \<Rightarrow> (st\<lparr>learningPlans := plans\<rparr>, []))"

definition handleDeleteComment :: "ident \<Rightarrow> ident \<Rightarrow> lp_state handler" where
  "handleDeleteComment planId commentId st =
     (case patchById plan_id planId (withoutComment commentId) (learningPlans st) of
        Inl e \<Rightarrow> (st, [Throw e])
      | Inr plans \<Rightarrow> (st\<lparr>learningPlans := plans\<rparr>, []))"

definition handleEdit :: "plan \<Rightarrow> lp_state handler" where
  "handleEdit p st = (st\<lparr>editingPlan := Some p\<rparr>, [])"


text \<open>\<^verbatim>\<open>handleDelete\<close> only opens the modal.  It has no check of the current user.\<close>

definition delete_plan_dialog :: "plan_callback \<Rightarrow> plan_callback modal_config" where
  "delete_plan_dialog onConfirm =
     \<lparr>cfg_title = ''Delete Learning Plan'',
      cfg_message = ''Are you sure you want to delete this learning plan? This action cannot be undone.'',
      cfg_confirmText = ''Delete'',
      cfg_cancelText = ''Cancel'',
      cfg_type = ''danger'',
      cfg_onConfirm = onConfirm\<rparr>"

definition handleDelete :: "user option \<Rightarrow> ident \<Rightarrow> lp_state handler" where
  "handleDelete currentUser planId st =
     (st\<lparr>modalState :=
          openModal (delete_plan_dialog (DeletePlanCallback planId (learningPlans st) currentUser))
            (modalState st)\<rparr>,
      [OpenModal])"

text \<open>The closure is an \<^verbatim>\<open>async\<close> function that nobody awaits.  Calling it runs it up
  to its \<^verbatim>\<open>await\<close>: the request is sent, or, with no current user, reading
  \<^verbatim>\<open>currentUser.token\<close> throws inside the \<^verbatim>\<open>try\<close> and the \<^verbatim>\<open>catch\<close> runs at once.  The
  rest runs when the gateway has answered, and writes the list the closure captured.\<close>

fun onConfirm_called :: "plan_callback \<Rightarrow> lp_state handler" where
  "onConfirm_called (DeletePlanCallback planId plans currentUser) st =
     (case currentUser of
        None \<Rightarrow>
          (st, [ConsoleError ''Error deleting learning plan:'',
                Toast (Error ''Failed to delete learning plan'')])
      | Some u \<Rightarrow> (st, [Call (DeleteLearningPlan planId (user_token u))]))"

fun onConfirm_settled :: "api \<Rightarrow> plan_callback \<Rightarrow> lp_state handler" where
  "onConfirm_settled gw (DeletePlanCallback planId plans currentUser) st =
     (case currentUser of
        None \<Rightarrow> (st, [])
      | Some u \<Rightarrow>
          (case deleteLearningPlan gw planId (user_token u) of
             Inr _ \<Rightarrow>
               (st\<lparr>learningPlans := filter (\<lambda>plan. plan_id plan \<noteq> planId) plans\<rparr>,
                [Toast (Success ''Learning plan deleted'')])
           | Inl e \<Rightarrow>
               (st, [ConsoleError ''Error deleting learning plan:'',
                     Toast (Error ''Failed to delete learning plan'')])))"

text \<open>The page renders \<^verbatim>\<open><ConfirmModal isOpen={modalState.isOpen} onClose={closeModal}
  onConfirm={modalState.onConfirm} ... />\<close>.  \<open>modal_click\<close> is one click on the modal
  followed by the settling of the request that click has sent, if any.\<close>

definition modal_onClose :: "lp_state handler" where
  "modal_onClose st = (st\<lparr>modalState := closeModal (modalState st)\<rparr>, [CloseModal])"

definition modal_click :: "api \<Rightarrow> modal_button \<Rightarrow> lp_state handler" where
  "modal_click gw b st =
     (let m = modalState st; cb = cfg_onConfirm (config m)
      in andThen (ConfirmModal (isOpen m) modal_onClose (onConfirm_called cb) b)
                 (if isOpen m \<and> b = ConfirmButton then onConfirm_settled gw cb else skip) st)"

section \<open>The comment component\<close>

text \<open>The props of \<^verbatim>\<open><Comment>\<close> that its handlers read.  The two callbacks
  \<^verbatim>\<open>onCommentUpdated\<close> and \<^verbatim>\<open>onCommentDeleted\<close> are handlers of the parent page and
  are passed to the functions below as arguments.\<close>

record comment_props =
  prop_comment :: comment
  prop_postId :: ident
  prop_currentUser :: "user option"
  prop_token :: "string option"
  prop_commentType :: string

datatype comment_callback = DeleteCommentCallback comment_props

text \<open>The state of one comment on the page: the state of the parent page, and the
  component's own \<^verbatim>\<open>useState\<close> and modal-hook state.\<close>

record 'p comment_state =
  parent :: 'p
  isEditing :: bool
  isDeleting :: bool
  commentModal :: "comment_callback modal_state"

text \<open>The \<^verbatim>\<open>if\<close> chains on \<^verbatim>\<open>commentType\<close>: the request that is sent and the gateway's
  answer to it, or \<open>None\<close> for a type the component does not know.\<close>

definition update_request ::
  "api \<Rightarrow> string \<Rightarrow> ident \<Rightarrow> ident \<Rightarrow> comment \<Rightarrow> string option
     \<Rightarrow> (request \<times> (gw_error + plan option)) option" where
  "update_request gw commentType postId cid updatedComment tok =
     (if commentType = ''SKILL_SHARING''
      then Some (UpdateComment postId cid updatedComment tok,
                 updateComment gw postId cid updatedComment tok)
      else if commentType = ''LEARNING_PROGRESS''
      then Some (UpdateLearningProgressComment postId cid updatedComment tok,
                 updateLearningProgressComment gw postId cid updatedComment tok)
      else if commentType = ''LEARNING_PLANS''
      then Some (UpdateLearningPlanComment postId cid updatedComment tok,
                 updateLearningPlanComment gw postId cid updatedComment tok)
      else None)"

definition delete_request ::
  "api \<Rightarrow> string \<Rightarrow> ident \<Rightarrow> ident \<Rightarrow> ident \<Rightarrow> string option
     \<Rightarrow> (request \<times> (gw_error + plan option)) option" where
  "delete_request gw commentType postId cid uid tok =
     (if commentType = ''SKILL_SHARING''
      then Some (DeleteComment postId cid uid tok, deleteComment gw postId cid uid tok)
      else if commentType = ''LEARNING_PROGRESS''
      then Some (DeleteLearningProgressComment postId cid uid tok,
                 deleteLearningProgressComment gw postId cid uid tok)
      else if commentType = ''LEARNING_PLANS''
      then Some (DeleteLearningPlanComment postId cid uid tok,
                 deleteLearningPlanComment gw postId cid uid tok)
      else None)"

definition known_type :: "string \<Rightarrow> bool" where
  "known_type commentType =
     (commentType = ''SKILL_SHARING'' \<or> commentType = ''LEARNING_PROGRESS'' \<or>
      commentType = ''LEARNING_PLANS'')"

text \<open>\<^verbatim>\<open>handleUpdate\<close> of the comment.  It never reads \<^verbatim>\<open>currentUser\<close>.  After the
  gateway has answered it calls \<^verbatim>\<open>onCommentUpdated\<close> without awaiting it, so an
  exception of that callback does not stop what follows.\<close>

definition comment_handleUpdate ::
  "api \<Rightarrow> comment_props \<Rightarrow> (ident \<Rightarrow> ident \<Rightarrow> js_string \<Rightarrow> 'p handler) \<Rightarrow> timestamp
     \<Rightarrow> js_string \<Rightarrow> 'p comment_state handler" where
  "comment_handleUpdate gw props onCommentUpdated now updatedContent cst =
     (if trim updatedContent = [] then (cst, [])
      else
        (let c = prop_comment props;
             updatedComment = c\<lparr>comment_content := updatedContent, comment_updatedAt := now\<rparr>
         in case update_request gw (prop_commentType props) (prop_postId props) (comment_id c)
                   updatedComment (prop_token props) of
              None \<Rightarrow> (cst, [Toast (Error ''Invalid comment type'')])
            | Some (req, Inl e) \<Rightarrow>
                (cst, [Call req, ConsoleError ''Error updating comment:'',
                       Toast (Error ''Failed to update comment'')])
            | Some (req, Inr _) \<Rightarrow>
                (let (p', es) = onCommentUpdated (prop_postId props) (comment_id c)
                                  updatedContent (parent cst)
                 in (cst\<lparr>parent := p', isEditing := False\<rparr>,
                     [Call req] @ es @ [Toast (Success ''Comment updated'')]))))"

definition delete_comment_dialog :: "comment_callback \<Rightarrow> comment_callback modal_config" where
  "delete_comment_dialog onConfirm =
     \<lparr>cfg_title = ''Delete Comment'',
      cfg_message = ''Are you sure you want to delete this comment? This action cannot be undone.'',
      cfg_confirmText = ''Delete'',
      cfg_cancelText = ''Cancel'',
      cfg_type = ''danger'',
      cfg_onConfirm = onConfirm\<rparr>"

definition comment_handleDelete :: "comment_props \<Rightarrow> 'p comment_state handler" where
  "comment_handleDelete props cst =
     (cst\<lparr>commentModal :=
           openModal (delete_comment_dialog (DeleteCommentCallback props)) (commentModal cst)\<rparr>,
      [OpenModal])"

text \<open>The closure of \<^verbatim>\<open>handleDelete\<close>, up to its \<^verbatim>\<open>await\<close> and after it.  The type of
  the comment is tested first; \<^verbatim>\<open>currentUser.id\<close> is read only to build the arguments
  of a known type's request.\<close>

fun comment_onConfirm_called :: "api \<Rightarrow> comment_callback \<Rightarrow> 'p comment_state handler" where
  "comment_onConfirm_called gw (DeleteCommentCallback props) cst =
     (if \<not> known_type (prop_commentType props)
      then (cst\<lparr>isDeleting := False\<rparr>, [Toast (Error ''Invalid comment type'')])
      else
        (case prop_currentUser props of
           None \<Rightarrow>
             (cst\<lparr>isDeleting := False\<rparr>,
              [ConsoleError ''Error deleting comment:'',
               Toast (Error ''Failed to delete comment'')])
         | Some u \<Rightarrow>
             (case delete_request gw (prop_commentType props) (prop_postId props)
                     (comment_id (prop_comment props)) (user_id u) (prop_token props) of
                None \<Rightarrow> (cst\<lparr>isDeleting := False\<rparr>, [Toast (Error ''Invalid comment type'')])
              | Some (req, _) \<Rightarrow> (cst\<lparr>isDeleting := True\<rparr>, [Call req]))))"

fun comment_onConfirm_settled ::
  "api \<Rightarrow> (ident \<Rightarrow> ident \<Rightarrow> 'p handler) \<Rightarrow> comment_callback \<Rightarrow> 'p comment_state handler" where
  "comment_onConfirm_settled gw onCommentDeleted (DeleteCommentCallback props) cst =
     (case prop_currentUser props of
        None \<Rightarrow> (cst, [])
      | Some u \<Rightarrow>
          (case delete_request gw (prop_commentType props) (prop_postId props)
                  (comment_id (prop_comment props)) (user_id u) (prop_token props) of
             None \<Rightarrow> (cst, [])
           | Some (req, Inl e) \<Rightarrow>
               (cst\<lparr>isDeleting := False\<rparr>,
                [ConsoleError ''Error deleting comment:'',
                 Toast (Error ''Failed to delete comment'')])
           | Some (req, Inr _) \<Rightarrow>
               (let (p', es) = onCommentDeleted (prop_postId props)
                                 (comment_id (prop_comment props)) (parent cst)
                in (cst\<lparr>parent := p', isDeleting := False\<rparr>,
                    es @ [Toast (Success ''Comment deleted'')]))))"

definition comment_modal_onClose :: "'p comment_state handler" where
  "comment_modal_onClose cst = (cst\<lparr>commentModal := closeModal (commentModal cst)\<rparr>, [CloseModal])"

definition comment_modal_click ::
  "api \<Rightarrow> (ident \<Rightarrow> ident \<Rightarrow> 'p handler) \<Rightarrow> modal_button \<Rightarrow> 'p comment_state handler" where
  "comment_modal_click gw onCommentDeleted b cst =
     (let m = commentModal cst; cb = cfg_onConfirm (config m)
      in andThen (ConfirmModal (isOpen m) comment_modal_onClose (comment_onConfirm_called gw cb) b)
                 (if isOpen m \<and> b = ConfirmButton
                  then comment_onConfirm_settled gw onCommentDeleted cb else skip) cst)"



section \<open>The events page\<close>

text \<open>The page calls \<^verbatim>\<open>axios\<close> itself.  Only the body of the list request is read
  (\<^verbatim>\<open>setEvents(res.data)\<close>), so \<^verbatim>\<open>axios\<close> is a function from the request to a list of
  events or a failure.  URLs are relative to \<^verbatim>\<open>VITE_BASE_URL\<close>.\<close>

type_synonym 'b axios = "request \<Rightarrow> gw_error + 'b"

record events_state =
  events :: "event list"
  events_loading :: bool
  events_error :: "gw_error option"
  modalOpen :: bool
  editData :: "event option"

definition events_baseUrl :: url where
  "events_baseUrl = [Lit ''/events'']"



text \<open>Delete and register: no confirmation, no check of the current user.\<close>

definition events_handleDelete ::
  "event list axios \<Rightarrow> user option \<Rightarrow> ident \<Rightarrow> events_state handler" where
  "events_handleDelete axios currentUser i st =
     (case currentUser of
        None \<Rightarrow> (st, [Throw TypeError])
      | Some u \<Rightarrow>
          (let req = AxiosDelete (events_baseUrl @ [Lit ''/'', Val i, Lit ''/user/'', Val (user_id u)])
           in case axios req of
                Inr _ \<Rightarrow>
                  (st\<lparr>events := filter (\<lambda>e. event_id e \<noteq> Some i) (events st)\<rparr>,
                   [Call req, Toast (Success ''Event deleted successfully!'')])
              | Inl e \<Rightarrow> (st, [Call req, Toast (Error ''Failed to delete event.'')])))"


section \<open>The resources page\<close>

text \<open>The body of the list response, as far as \<^verbatim>\<open>fetchResources\<close> looks into it:
  \<^verbatim>\<open>null\<close> (or no value at all); an array; an object with its fields; anything else
  (a string, a number, a boolean), whose \<^verbatim>\<open>resources\<close> property is \<^verbatim>\<open>undefined\<close>.\<close>

datatype 'a data = DNull | DOther | DArray "'a list" | DObject "(string \<times> 'a data) list"

text \<open>\<^verbatim>\<open>axios\<close> as this page uses it: the list request, and the writes, whose response
  body is the resource the server stored.\<close>

record resources_axios =
  axios_get :: "url \<Rightarrow> gw_error + resource data"
  axios_post :: "url \<Rightarrow> resource_payload \<Rightarrow> gw_error + resource"
  axios_put :: "url \<Rightarrow> resource_payload \<Rightarrow> gw_error + resource"
  axios_delete :: "url \<Rightarrow> gw_error + resource option"

record resources_state =
  resources :: "resource list"
  resources_loading :: bool
  resources_error :: "js_error option"
  showCreate :: bool
  newTitle :: string
  newDescription :: string
  newUrl :: string
  editingId :: "ident option"
  editTitle :: string
  editDescription :: string
  editUrl :: string

definition resources_baseUrl :: url where
  "resources_baseUrl = [Lit ''/resources'']"

text \<open>\<^verbatim>\<open>Array.isArray(data) ? data : Array.isArray(data.resources) ? data.resources : []\<close>.
  Reading \<^verbatim>\<open>data.resources\<close> of \<^verbatim>\<open>null\<close> throws.\<close>

fun resource_list :: "'a data \<Rightarrow> js_error + 'a list" where
  "resource_list (DArray xs) = Inr xs"
| "resource_list DNull = Inl TypeError"
| "resource_list DOther = Inr []"
| "resource_list (DObject props) =
     (case map_of props ''resources'' of
        Some (DArray xs) \<Rightarrow> Inr xs
      | _ \<Rightarrow> Inr [])"

definition fetchResources :: "resources_axios \<Rightarrow> resources_state handler" where
  "fetchResources axios st =
     (let st1 = st\<lparr>resources_loading := True\<rparr>;
          req = Call (AxiosGet resources_baseUrl)
      in case axios_get axios resources_baseUrl of
           Inl e \<Rightarrow>
             (st1\<lparr>resources_error := Some (Rejected e), resources_loading := False\<rparr>,
              [req, Toast (Error ''Failed to load resources'')])
         | Inr data \<Rightarrow>
             (case resource_list data of
                Inl err \<Rightarrow>
                  (st1\<lparr>resources_error := Some err, resources_loading := False\<rparr>,
                   [req, Toast (Error ''Failed to load resources'')])
              | Inr list \<Rightarrow>
                  (st1\<lparr>resources := list, resources_loading := False\<rparr>,
                   [req, Toast (Success ''Resources Loaded Successfully'')])))"



text \<open>\<^verbatim>\<open>window.confirm\<close> blocks until the user has answered; \<open>confirmed\<close> is the
  answer.\<close>

definition resources_handleDelete ::
  "resources_axios \<Rightarrow> user option \<Rightarrow> bool \<Rightarrow> ident \<Rightarrow> resources_state handler" where
  "resources_handleDelete axios currentUser confirmed i st =
     (let ask = WindowConfirm ''Are you sure you want to delete this resource?''
      in if \<not> confirmed then (st, [ask])
         else
           (case currentUser of
              None \<Rightarrow> (st, [ask, Toast (Error ''Failed to delete resource'')])
            | Some u \<Rightarrow>
                (let u' = resources_baseUrl @ [Lit ''/'', Val i, Lit ''/user/'', Val (user_id u)]
                 in case axios_delete axios u' of
                      Inr _ \<Rightarrow>
                        (st\<lparr>resources := filter (\<lambda>r. resource_id r \<noteq> i) (resources st)\<rparr>,
                         [ask, Call (AxiosDelete u'), Toast (Success ''Resource deleted'')])
                    | Inl e \<Rightarrow>
                        (st, [ask, Call (AxiosDelete u'),
                              Toast (Error ''Failed to delete resource'')]))))"

section \<open>Object identity\<close>

text \<open>The handlers above work on values.  To speak about which \<^emph>\<open>object\<close> sits in the
  list after a patch, this section repeats the patch on references: the heap is the
  list of all objects allocated so far, a reference is an index into it, and the
  Collection Store is a list of references.  The callback of \<^verbatim>\<open>map\<close> is handed a
  reference and returns either that same reference (\<^verbatim>\<open>return plan\<close>), or a new
  object built by an object literal (\<^verbatim>\<open>{...plan, comments: ...}\<close>), or a reference
  it already holds (\<^verbatim>\<open>response.data\<close>).  No statement of the source assigns to a
  field of an existing object, so the heap only ever grows.\<close>

type_synonym ref = nat

type_synonym 'a heap = "'a list"

definition alloc :: "'a \<Rightarrow> 'a heap \<Rightarrow> 'a heap \<times> ref" where
  "alloc v h = (h @ [v], length h)"

datatype 'a returned = Literal 'a | Existing ref

text \<open>\<^verbatim>\<open>refs.map((x) => { if (x.id === id) { return <updated x>; } return x; })\<close>.  The
  result is the heap after the map and the new array, or the exception that stopped
  the map.\<close>

definition push_ref :: "ref \<Rightarrow> 'a heap \<times> (js_error + ref list) \<Rightarrow> 'a heap \<times> (js_error + ref list)" where
  "push_ref r res = (case res of (h, Inl e) \<Rightarrow> (h, Inl e) | (h, Inr rs) \<Rightarrow> (h, Inr (r # rs)))"

fun patchById_refs ::
  "('a \<Rightarrow> ident) \<Rightarrow> ident \<Rightarrow> ('a \<Rightarrow> js_error + 'a returned) \<Rightarrow> ref list \<Rightarrow> 'a heap
     \<Rightarrow> 'a heap \<times> (js_error + ref list)" where
  "patchById_refs get_id i upd [] h = (h, Inr [])"
| "patchById_refs get_id i upd (r # rs) h =
     (if get_id (h ! r) = i
      then (case upd (h ! r) of
              Inl e \<Rightarrow> (h, Inl e)
            | Inr (Existing r') \<Rightarrow> push_ref r' (patchById_refs get_id i upd rs h)
            | Inr (Literal v) \<Rightarrow>
                (let (h1, r1) = alloc v h in push_ref r1 (patchById_refs get_id i upd rs h1)))
      else push_ref r (patchById_refs get_id i upd rs h))"

text \<open>An updater that builds its result with an object literal.\<close>

definition literal :: "('a \<Rightarrow> js_error + 'a) \<Rightarrow> 'a \<Rightarrow> js_error + 'a returned" where
  "literal f x = (case f x of Inl e \<Rightarrow> Inl e | Inr v \<Rightarrow> Inr (Literal v))"

text \<open>The three patches the pages apply by id, on references: the heap and the
  store before, the heap and the store after.  \<^verbatim>\<open>setLearningPlans\<close> is not reached when
  the map throws.\<close>

definition set_store :: "ref list \<Rightarrow> 'a heap \<times> (js_error + ref list) \<Rightarrow> 'a heap \<times> ref list" where
  "set_store old res = (case res of (h, Inl e) \<Rightarrow> (h, old) | (h, Inr rs) \<Rightarrow> (h, rs))"

definition handleUpdateComment_refs ::
  "timestamp \<Rightarrow> ident \<Rightarrow> ident \<Rightarrow> js_string \<Rightarrow> plan heap \<times> ref list
     \<Rightarrow> plan heap \<times> ref list" where
  "handleUpdateComment_refs now planId commentId updatedContent hs =
     set_store (snd hs)
       (patchById_refs plan_id planId
          (literal (withUpdatedComment commentId updatedContent now)) (snd hs) (fst hs))"

definition handleDeleteComment_refs ::
  "ident \<Rightarrow> ident \<Rightarrow> plan heap \<times> ref list \<Rightarrow> plan heap \<times> ref list" where
  "handleDeleteComment_refs planId commentId hs =
     set_store (snd hs)
       (patchById_refs plan_id planId (literal (withoutComment commentId)) (snd hs) (fst hs))"

text \<open>\<^verbatim>\<open>prev.map(r => (r.id === editingId ? data : r))\<close> of the resources page, where
  \<^verbatim>\<open>data\<close> is the object \<^verbatim>\<open>axios\<close> has just parsed.\<close>

definition resources_update_refs ::
  "ident \<Rightarrow> resource \<Rightarrow> resource heap \<times> ref list \<Rightarrow> resource heap \<times> ref list" where
  "resources_update_refs editing data hs =
     (let (h1, d) = alloc data (fst hs)
      in set_store (snd hs)
           (patchById_refs resource_id editing (\<lambda>r. Inr (Existing d)) (snd hs) h1))"

section \<open>Notions used to state the properties\<close>

text \<open>The users who like a plan, and the users who like the plan that the page finds
  under an id.\<close>

definition likers :: "plan \<Rightarrow> ident set" where
  "likers p = (case likes p of None \<Rightarrow> {} | Some ls \<Rightarrow> like_userId ` set ls)"

definition likers_of :: "plan list \<Rightarrow> ident \<Rightarrow> ident set" where
  "likers_of plans planId =
     (case find (\<lambda>q. plan_id q = planId) plans of None \<Rightarrow> {} | Some p \<Rightarrow> likers p)"




text \<open>What a patch by id must leave alone, on references: every object that existed
  is still what it was; the store has the same length; and wherever the item's id is
  not the patched one, the store holds the same reference, to the same object.\<close>

definition frame_kept ::
  "('a \<Rightarrow> ident) \<Rightarrow> ident \<Rightarrow> 'a heap \<times> ref list \<Rightarrow> 'a heap \<times> ref list \<Rightarrow> bool" where
  "frame_kept get_id i before after =
     (take (length (fst before)) (fst after) = fst before \<and>
      length (snd after) = length (snd before) \<and>
      (\<forall>k<length (snd before).
         get_id (fst before ! (snd before ! k)) \<noteq> i \<longrightarrow>
           snd after ! k = snd before ! k \<and>
           fst after ! (snd after ! k) = fst before ! (snd before ! k)))"





section \<open>Concrete scenarios\<close>

definition viewer :: user where
  "viewer = \<lparr>user_id = Str ''u1'', user_name = ''Una'', user_profileImage = ''una.png'',
             user_token = ''t1''\<rparr>"

definition viewer_like :: like where
  "viewer_like = \<lparr>like_userId = Str ''u1'', like_userName = ''Una''\<rparr>"

definition comment1 :: comment where
  "comment1 = \<lparr>comment_id = Num 10, comment_userId = Str ''u1'', comment_userName = ''Una'',
               comment_content = utf16 ''first'', comment_createdAt = 5, comment_updatedAt = 5\<rparr>"

definition comment2 :: comment where
  "comment2 = \<lparr>comment_id = Num 11, comment_userId = Str ''u2'', comment_userName = ''Odo'',
               comment_content = utf16 ''second'', comment_createdAt = 6, comment_updatedAt = 6\<rparr>"

definition plan1 :: plan where
  "plan1 = \<lparr>plan_id = Num 1, plan_userId = Str ''u2'', plan_userName = ''Odo'',
            plan_title = ''Isabelle'', plan_description = ''Prove things'', plan_topics = ''HOL'',
            plan_resources = ''prog-prove'', likes = Some [], comments = Some [comment1, comment2]\<rparr>"

definition plan2 :: plan where
  "plan2 = \<lparr>plan_id = Num 2, plan_userId = Str ''u1'', plan_userName = ''Una'',
            plan_title = ''React'', plan_description = ''Build pages'', plan_topics = ''hooks'',
            plan_resources = ''docs'', likes = Some [], comments = Some []\<rparr>"


definition comment_data1 :: comment_data where
  "comment_data1 = \<lparr>cd_userId = Str ''u1'', cd_userName = ''Una'', cd_content = utf16 ''third''\<rparr>"

definition edited :: js_string where
  "edited = utf16 ''edited''"

text \<open>A gateway that answers every request for an item with \<open>r\<close>, the list request
  with \<open>[r]\<close>, and the others with an empty body; and one that fails every request.\<close>

definition server :: "plan \<Rightarrow> api" where
  "server r =
     \<lparr>getAllLearningPlans = (\<lambda>tok. Inr [r]),
      createLearningPlan = (\<lambda>uid d tok. Inr r),
      deleteLearningPlan = (\<lambda>i tok. Inr None),
      addLike = (\<lambda>i l tok. Inr r),
      removeLike = (\<lambda>i uid tok. Inr None),
      addComment = (\<lambda>i d tok. Inr r),
      updateComment = (\<lambda>i c d tok. Inr None),
      updateLearningProgressComment = (\<lambda>i c d tok. Inr None),
      updateLearningPlanComment = (\<lambda>i c d tok. Inr None),
      deleteComment = (\<lambda>i c uid tok. Inr None),
      deleteLearningProgressComment = (\<lambda>i c uid tok. Inr None),
      deleteLearningPlanComment = (\<lambda>i c uid tok. Inr None)\<rparr>"


text \<open>The learning-plan page showing the given plans, its modal closed.\<close>

definition page :: "plan list \<Rightarrow> lp_state" where
  "page plans =
     \<lparr>learningPlans = plans, loading = False, isSubmitting = False, editingPlan = None,
      modalState = \<lparr>isOpen = False,
                    config = \<lparr>cfg_title = [], cfg_message = [], cfg_confirmText = [],
                              cfg_cancelText = [], cfg_type = [],
                              cfg_onConfirm = DeletePlanCallback (Num 0) [] None\<rparr>\<rparr>\<rparr>"

text \<open>One comment of \<open>plan1\<close> as the learning-plan page shows it to the viewer.\<close>

definition comment1_props :: comment_props where
  "comment1_props =
     \<lparr>prop_comment = comment1, prop_postId = Num 1, prop_currentUser = Some viewer,
      prop_token = Some ''t1'', prop_commentType = ''LEARNING_PLANS''\<rparr>"



definition comment_view :: "plan list \<Rightarrow> lp_state comment_state" where
  "comment_view plans =
     \<lparr>parent = page plans, isEditing = True, isDeleting = False,
      commentModal = \<lparr>isOpen = False,
                      config = \<lparr>cfg_title = [], cfg_message = [], cfg_confirmText = [],
                                cfg_cancelText = [], cfg_type = [],
                                cfg_onConfirm = DeleteCommentCallback comment1_props\<rparr>\<rparr>\<rparr>"

text \<open>The events page with one event, and three servers: one that accepts every
  request, one that accepts a write but then fails the list request, and one that
  fails every request.\<close>

definition event1 :: event where
  "event1 = \<lparr>event_id = Some (Num 1), event_title = ''Meetup'', event_description = ''Talks'',
             event_date = ''2025-05-01'', event_location = ''Lab'', event_category = ''Tech'',
             event_maxParticipants = ''20''\<rparr>"


definition events_page :: "event list \<Rightarrow> events_state" where
  "events_page evs =
     \<lparr>events = evs, events_loading = False, events_error = None, modalOpen = True,
      editData = None\<rparr>"

definition accepting :: "event list axios" where
  "accepting req = Inr [event1]"



text \<open>The resources page with one resource, and a server whose list response is
  \<open>body\<close>, its writes failing.\<close>

definition resource1 :: resource where
  "resource1 = \<lparr>resource_id = Num 1, resource_title = ''Manual'', resource_description = ''Isar'',
                resource_url = ''https://isabelle.in.tum.de''\<rparr>"

definition resource2 :: resource where
  "resource2 = \<lparr>resource_id = Num 2, resource_title = ''Tutorial'', resource_description = ''HOL'',
                resource_url = ''https://isabelle.in.tum.de/doc''\<rparr>"

definition resources_page :: "resource list \<Rightarrow> resources_state" where
  "resources_page rs =
     \<lparr>resources = rs, resources_loading = False, resources_error = None, showCreate = True,
      newTitle = ''Guide'', newDescription = ''Sets'', newUrl = ''https://example.org'',
      editingId = Some (Num 1), editTitle = ''Manual'', editDescription = ''Isar, revised'',
      editUrl = ''https://isabelle.in.tum.de''\<rparr>"


definition answering :: "resource data \<Rightarrow> resources_axios" where
  "answering body =
     \<lparr>axios_get = (\<lambda>u. Inr body),
      axios_post = (\<lambda>u p. Inl ServerError),
      axios_put = (\<lambda>u p. Inl ServerError),
      axios_delete = (\<lambda>u. Inl ServerError)\<rparr>"

section \<open>Lemmas about the list operations\<close>

lemma mapE_Inr_map: "(\<And>x. x \<in> set xs \<Longrightarrow> f x = Inr (g x)) \<Longrightarrow> mapE f xs = Inr (map g xs)"
  by (induction xs) auto

lemma find_SomeD: "find P xs = Some p \<Longrightarrow> p \<in> set xs \<and> P p"
  by (induction xs) (auto split: if_splits)

lemma distinct_id_unique:
  "distinct (map f xs) \<Longrightarrow> p \<in> set xs \<Longrightarrow> q \<in> set xs \<Longrightarrow> f q = f p \<Longrightarrow> q = p"
  by (metis distinct_map inj_onD)

lemma find_map_same_id:
  "find (\<lambda>q. f q = i) xs = Some p \<Longrightarrow> (\<And>q. f (g q) = f q) \<Longrightarrow>
   find (\<lambda>q. f q = i) (map g xs) = Some (g p)"
  by (induction xs) (auto split: if_splits)

lemma isLiked_found:
  "find (\<lambda>q. plan_id q = planId) plans = Some p \<Longrightarrow>
   isLiked plans planId uid = (uid \<in> likers p)"
  by (cases "likes p") (force simp: isLiked_def likers_def list_ex_iff)+

lemma patch_replace:
  "patchById get_id i (\<lambda>x. Inr r) xs = Inr (map (\<lambda>q. if get_id q = i then r else q) xs)"
  unfolding patchById_def by (rule mapE_Inr_map) auto

lemma patch_unique:
  assumes "find (\<lambda>q. get_id q = i) xs = Some p" and "distinct (map get_id xs)"
      and "upd p = Inr p'"
  shows "patchById get_id i upd xs = Inr (map (\<lambda>q. if get_id q = i then p' else q) xs)"
proof -
  from assms(1) have pin: "p \<in> set xs" and pid: "get_id p = i"
    using find_SomeD by fastforce+
  have "\<And>q. q \<in> set xs \<Longrightarrow> get_id q = i \<Longrightarrow> q = p"
    using distinct_id_unique [OF assms(2) pin] pid by simp
  with assms(3) show ?thesis
    unfolding patchById_def by (intro mapE_Inr_map) auto
qed

lemma handleLike_adds:
  assumes "\<not> isLiked (learningPlans st) planId (user_id u)"
      and "addLike gw planId \<lparr>like_userId = user_id u, like_userName = user_name u\<rparr> (user_token u) = Inr r"
  shows "handleLike gw (Some u) planId st =
           (st\<lparr>learningPlans := map (\<lambda>q. if plan_id q = planId then r else q) (learningPlans st)\<rparr>,
            [Call (AddLike planId \<lparr>like_userId = user_id u, like_userName = user_name u\<rparr> (user_token u))])"
  using assms by (simp add: handleLike_def patch_replace)

lemma handleLike_removes:
  assumes found: "find (\<lambda>q. plan_id q = planId) (learningPlans st) = Some p"
      and uniq: "distinct (map plan_id (learningPlans st))"
      and ls: "likes p = Some ls" and mem: "user_id u \<in> like_userId ` set ls"
      and ok: "removeLike gw planId (user_id u) (user_token u) = Inr b"
  shows "handleLike gw (Some u) planId st =
           (st\<lparr>learningPlans :=
                 map (\<lambda>q. if plan_id q = planId
                           then p\<lparr>likes := Some (filter (\<lambda>l. like_userId l \<noteq> user_id u) ls)\<rparr>
                           else q) (learningPlans st)\<rparr>,
            [Call (RemoveLike planId (user_id u) (user_token u))])"
proof -
  have liked: "isLiked (learningPlans st) planId (user_id u)"
    using ls mem by (simp add: isLiked_found [OF found] likers_def)
  have "withoutLike (user_id u) p =
          Inr (p\<lparr>likes := Some (filter (\<lambda>l. like_userId l \<noteq> user_id u) ls)\<rparr>)"
    using ls by (simp add: withoutLike_def)
  from patch_unique [where upd = "withoutLike (user_id u)", OF found uniq this] liked ok
  show ?thesis
    by (simp add: handleLike_def)
qed

lemma map_id_replace:
  "f r = i \<Longrightarrow> map f (map (\<lambda>q. if f q = i then r else q) xs) = map f xs"
  by (induction xs) auto

lemma find_replace:
  "find (\<lambda>q. f q = i) xs = Some p \<Longrightarrow> f r = i \<Longrightarrow>
   find (\<lambda>q. f q = i) (map (\<lambda>q. if f q = i then r else q) xs) = Some r"
  by (induction xs) (auto split: if_splits)

lemma likers_withoutLike:
  "likes r = Some ls \<Longrightarrow>
   likers (r\<lparr>likes := Some (filter (\<lambda>l. like_userId l \<noteq> uid) ls)\<rparr>) = likers r - {uid}"
  by (auto simp: likers_def)

lemma toggle_add_then_remove:
  assumes found: "find (\<lambda>q. plan_id q = planId) (learningPlans st) = Some p"
      and uniq: "distinct (map plan_id (learningPlans st))"
      and fresh: "user_id u \<notin> likers p"
      and add: "addLike gw1 planId \<lparr>like_userId = user_id u, like_userName = user_name u\<rparr> (user_token u) = Inr r"
      and rid: "plan_id r = planId"
      and rl: "likers r = insert (user_id u) (likers p)"
      and rm: "removeLike gw2 planId (user_id u) (user_token u) = Inr b"
  shows "likers_of (learningPlans (fst (handleLike gw2 (Some u) planId
                       (fst (handleLike gw1 (Some u) planId st))))) planId = likers p"
proof -
  let ?plans1 = "map (\<lambda>q. if plan_id q = planId then r else q) (learningPlans st)"
  let ?st1 = "st\<lparr>learningPlans := ?plans1\<rparr>"
  have "\<not> isLiked (learningPlans st) planId (user_id u)"
    using fresh by (simp add: isLiked_found [OF found])
  from handleLike_adds [OF this add]
  have first: "fst (handleLike gw1 (Some u) planId st) = ?st1" by simp
  have sel: "learningPlans ?st1 = ?plans1" by simp
  have found1: "find (\<lambda>q. plan_id q = planId) (learningPlans ?st1) = Some r"
    unfolding sel by (rule find_replace [where f = plan_id, OF found rid])
  have ids: "map plan_id ?plans1 = map plan_id (learningPlans st)"
    by (rule map_id_replace [where f = plan_id, OF rid])
  have uniq1: "distinct (map plan_id (learningPlans ?st1))"
    unfolding sel ids by (rule uniq)
  from rl obtain ls where ls: "likes r = Some ls" "user_id u \<in> like_userId ` set ls"
    by (cases "likes r") (auto simp: likers_def)
  let ?r' = "r\<lparr>likes := Some (filter (\<lambda>l. like_userId l \<noteq> user_id u) ls)\<rparr>"
  let ?plans2 = "map (\<lambda>q. if plan_id q = planId then ?r' else q) ?plans1"
  from handleLike_removes [OF found1 uniq1 ls(1) ls(2) rm]
  have second: "learningPlans (fst (handleLike gw2 (Some u) planId ?st1)) = ?plans2" by simp
  have rid': "plan_id ?r' = planId" using rid by simp
  from found1 have "find (\<lambda>q. plan_id q = planId) ?plans1 = Some r" by simp
  from find_replace [where f = plan_id, OF this rid']
  have "find (\<lambda>q. plan_id q = planId) ?plans2 = Some ?r'" .
  moreover have "likers ?r' = likers p"
    using likers_withoutLike [OF ls(1), of "user_id u"] rl fresh by simp
  ultimately have "likers_of ?plans2 planId = likers p"
    by (simp only: likers_of_def option.case)
  then show ?thesis by (simp only: first second)
qed

lemma toggle_remove_then_add:
  assumes found: "find (\<lambda>q. plan_id q = planId) (learningPlans st) = Some p"
      and uniq: "distinct (map plan_id (learningPlans st))"
      and liked: "user_id u \<in> likers p"
      and rm: "removeLike gw1 planId (user_id u) (user_token u) = Inr b"
      and add: "addLike gw2 planId \<lparr>like_userId = user_id u, like_userName = user_name u\<rparr> (user_token u) = Inr r"
      and rid: "plan_id r = planId"
      and rl: "likers r = insert (user_id u) (likers p - {user_id u})"
  shows "likers_of (learningPlans (fst (handleLike gw2 (Some u) planId
                       (fst (handleLike gw1 (Some u) planId st))))) planId = likers p"
proof -
  from liked obtain ls where ls: "likes p = Some ls" "user_id u \<in> like_userId ` set ls"
    by (cases "likes p") (auto simp: likers_def)
  let ?p' = "p\<lparr>likes := Some (filter (\<lambda>l. like_userId l \<noteq> user_id u) ls)\<rparr>"
  let ?plans1 = "map (\<lambda>q. if plan_id q = planId then ?p' else q) (learningPlans st)"
  let ?st1 = "st\<lparr>learningPlans := ?plans1\<rparr>"
  from handleLike_removes [OF found uniq ls(1) ls(2) rm]
  have first: "fst (handleLike gw1 (Some u) planId st) = ?st1" by simp
  have pid: "plan_id ?p' = planId" using find_SomeD [OF found] by simp
  have sel: "learningPlans ?st1 = ?plans1" by simp
  have found1: "find (\<lambda>q. plan_id q = planId) (learningPlans ?st1) = Some ?p'"
    unfolding sel by (rule find_replace [where f = plan_id, OF found pid])
  have nl: "user_id u \<notin> likers ?p'"
    using likers_withoutLike [OF ls(1), of "user_id u"] by simp
  have "\<not> isLiked (learningPlans ?st1) planId (user_id u)"
    unfolding isLiked_found [OF found1] by (rule nl)
  from handleLike_adds [OF this add]
  have second: "learningPlans (fst (handleLike gw2 (Some u) planId ?st1)) =
                map (\<lambda>q. if plan_id q = planId then r else q) ?plans1" by simp
  from found1 have "find (\<lambda>q. plan_id q = planId) ?plans1 = Some ?p'" by simp
  from find_replace [where f = plan_id, OF this rid]
  have "find (\<lambda>q. plan_id q = planId) (map (\<lambda>q. if plan_id q = planId then r else q) ?plans1) = Some r" .
  moreover have "likers r = likers p" using rl liked by auto
  ultimately have "likers_of (map (\<lambda>q. if plan_id q = planId then r else q) ?plans1) planId = likers p"
    by (simp only: likers_of_def option.case)
  then show ?thesis by (simp only: first second)
qed


section \<open>Lemmas about patching on references\<close>

lemma push_ref_fst [simp]: "fst (push_ref r res) = fst res"
  by (cases res) (auto simp: push_ref_def split: sum.splits)

lemma push_ref_Inr:
  "push_ref r res = (h', Inr rs') \<Longrightarrow> \<exists>rs0. res = (h', Inr rs0) \<and> rs' = r # rs0"
  by (cases res) (auto simp: push_ref_def split: sum.splits)

lemma patchById_refs_grows:
  "\<exists>new. fst (patchById_refs get_id i upd rs h) = h @ new"
proof (induction rs arbitrary: h)
  case Nil
  show ?case by simp
next
  case (Cons r rs)
  show ?case
  proof (cases "get_id (h ! r) = i")
    case False
    with Cons.IH [of h] show ?thesis by simp
  next
    case True
    show ?thesis
    proof (cases "upd (h ! r)")
      case (Inl e)
      with True show ?thesis by simp
    next
      case (Inr ret)
      show ?thesis
      proof (cases ret)
        case (Existing r')
        with True Inr Cons.IH [of h] show ?thesis by simp
      next
        case (Literal v)
        from Cons.IH [of "h @ [v]"] obtain new
          where "fst (patchById_refs get_id i upd rs (h @ [v])) = (h @ [v]) @ new" by blast
        with True Inr Literal show ?thesis by (simp add: alloc_def)
      qed
    qed
  qed
qed

lemma patchById_refs_frame:
  "patchById_refs get_id i upd rs h = (h', Inr rs') \<Longrightarrow> \<forall>r\<in>set rs. r < length h \<Longrightarrow>
   length rs' = length rs \<and>
   (\<forall>k<length rs. get_id (h ! (rs ! k)) \<noteq> i \<longrightarrow> rs' ! k = rs ! k)"
proof (induction rs arbitrary: h rs')
  case Nil
  then show ?case by simp
next
  case (Cons r rs)
  have step: "length rs0 = length rs \<and>
              (\<forall>k<length rs. get_id (h ! (rs ! k)) \<noteq> i \<longrightarrow> rs0 ! k = rs ! k)"
    if "patchById_refs get_id i upd rs (h @ new) = (h', Inr rs0)" for new rs0
  proof -
    from Cons.prems(2) have wf: "\<forall>r\<in>set rs. r < length (h @ new)" by auto
    from Cons.IH [OF that wf] Cons.prems(2) show ?thesis by (auto simp: nth_append)
  qed
  have cons: ?case if "length rs0 = length rs \<and>
              (\<forall>k<length rs. get_id (h ! (rs ! k)) \<noteq> i \<longrightarrow> rs0 ! k = rs ! k)"
      and "rs' = r0 # rs0" and "get_id (h ! r) \<noteq> i \<longrightarrow> r0 = r" for rs0 r0
    using that by (auto simp: nth_Cons split: nat.splits)
  show ?case
  proof (cases "get_id (h ! r) = i")
    case False
    with Cons.prems(1) obtain rs0 where
      "patchById_refs get_id i upd rs h = (h', Inr rs0)" "rs' = r # rs0"
      by (auto dest: push_ref_Inr)
    with step [of "[]" rs0] cons [of rs0 r] show ?thesis by simp
  next
    case True
    show ?thesis
    proof (cases "upd (h ! r)")
      case (Inl e)
      with True Cons.prems(1) show ?thesis by simp
    next
      case (Inr ret)
      show ?thesis
      proof (cases ret)
        case (Existing r')
        with True Inr Cons.prems(1) obtain rs0 where
          "patchById_refs get_id i upd rs h = (h', Inr rs0)" "rs' = r' # rs0"
          by (auto dest: push_ref_Inr)
        with step [of "[]" rs0] cons [of rs0 r'] True show ?thesis by simp
      next
        case (Literal v)
        with True Inr Cons.prems(1) obtain rs0 where
          "patchById_refs get_id i upd rs (h @ [v]) = (h', Inr rs0)" "rs' = length h # rs0"
          by (auto simp: alloc_def dest: push_ref_Inr)
        with step [of "[v]" rs0] cons [of rs0 "length h"] True show ?thesis by simp
      qed
    qed
  qed
qed

lemma patchById_refs_value:
  "\<forall>r\<in>set rs. r < length h \<Longrightarrow>
   (case patchById_refs get_id i (literal f) rs h of
      (h', Inl e) \<Rightarrow> patchById get_id i f (map ((!) h) rs) = Inl e
    | (h', Inr rs') \<Rightarrow> patchById get_id i f (map ((!) h) rs) = Inr (map ((!) h') rs'))"
proof (induction rs arbitrary: h)
  case Nil
  show ?case by (simp add: patchById_def)
next
  case (Cons r rs)
  let ?g = "\<lambda>x. if get_id x = i then f x else Inr x"
  have rest: "(case res of
                 Inl e \<Rightarrow> mapE ?g (map ((!) h) rs) = Inl e
               | Inr rs' \<Rightarrow> mapE ?g (map ((!) h) rs) = Inr (map ((!) h') rs'))
              \<and> (\<exists>new'. h' = h @ new @ new')"
    if "patchById_refs get_id i (literal f) rs (h @ new) = (h', res)" for new h' res
  proof -
    from Cons.prems have wf: "\<forall>r\<in>set rs. r < length (h @ new)" by auto
    from Cons.prems have same: "map ((!) (h @ new)) rs = map ((!) h) rs"
      by (auto simp: nth_append)
    from patchById_refs_grows [of get_id i "literal f" rs "h @ new"] that
    have "\<exists>new'. h' = h @ new @ new'" by auto
    with Cons.IH [OF wf] that same show ?thesis
      by (auto simp: patchById_def split: sum.splits)
  qed
  from Cons.prems have r: "r < length h" by simp
  show ?case
  proof (cases "get_id (h ! r) = i")
    case False
    obtain h' res where p: "patchById_refs get_id i (literal f) rs h = (h', res)"
      by (cases "patchById_refs get_id i (literal f) rs h") auto
    from rest [of "[]" h' res] p obtain new' where h': "h' = h @ new'" by auto
    with r have hr: "h' ! r = h ! r" by (simp add: nth_append)
    from rest [of "[]" h' res] p
    have tl: "case res of
                Inl e \<Rightarrow> mapE ?g (map ((!) h) rs) = Inl e
              | Inr rs' \<Rightarrow> mapE ?g (map ((!) h) rs) = Inr (map ((!) h') rs')" by simp
    show ?thesis
      using tl by (cases res) (simp_all add: patchById_def push_ref_def p False hr)
  next
    case True
    show ?thesis
    proof (cases "f (h ! r)")
      case (Inl e)
      with True show ?thesis by (simp add: patchById_def literal_def)
    next
      case (Inr v)
      obtain h' res where p: "patchById_refs get_id i (literal f) rs (h @ [v]) = (h', res)"
        by (cases "patchById_refs get_id i (literal f) rs (h @ [v])") auto
      from rest [of "[v]" h' res] p obtain new' where h': "h' = h @ [v] @ new'" by auto
      then have hv: "h' ! length h = v" by (simp add: nth_append)
      from Inr have lit: "literal f (h ! r) = Inr (Literal v)" by (simp add: literal_def)
      from rest [of "[v]" h' res] p
      have tl: "case res of
                  Inl e \<Rightarrow> mapE ?g (map ((!) h) rs) = Inl e
                | Inr rs' \<Rightarrow> mapE ?g (map ((!) h) rs) = Inr (map ((!) h') rs')" by simp
      show ?thesis
        using tl by (cases res) (simp_all add: patchById_def push_ref_def alloc_def lit p True Inr hv)
    qed
  qed
qed


section \<open>The like toggle\<close>

text \<open>C1.  A signed-in viewer toggles the like of an item that is in the store, the
  ids of the store being unique, and the gateway answers.  If the item's likes hold an
  entry of the viewer, the handler sends remove-like and puts in the item's place a
  copy whose likes are the old ones without the viewer's entries.  If they hold none
  (or the item has no likes at all), it sends add-like and puts the item of the
  server's response in its place.  Every item with another id stays as it is.\<close>

theorem handleLike_reconciles:
  assumes found: "find (\<lambda>q. plan_id q = planId) (learningPlans st) = Some p"
      and uniq: "distinct (map plan_id (learningPlans st))"
  shows "(\<forall>ls b. likes p = Some ls \<and> user_id u \<in> like_userId ` set ls \<and>
              removeLike gw planId (user_id u) (user_token u) = Inr b \<longrightarrow>
            handleLike gw (Some u) planId st =
              (st\<lparr>learningPlans :=
                    map (\<lambda>q. if plan_id q = planId
                              then p\<lparr>likes := Some (filter (\<lambda>l. like_userId l \<noteq> user_id u) ls)\<rparr>
                              else q) (learningPlans st)\<rparr>,
               [Call (RemoveLike planId (user_id u) (user_token u))]))
       \<and> (\<forall>r. user_id u \<notin> likers p \<and>
              addLike gw planId \<lparr>like_userId = user_id u, like_userName = user_name u\<rparr>
                (user_token u) = Inr r \<longrightarrow>
            handleLike gw (Some u) planId st =
              (st\<lparr>learningPlans := map (\<lambda>q. if plan_id q = planId then r else q)
                                      (learningPlans st)\<rparr>,
               [Call (AddLike planId \<lparr>like_userId = user_id u, like_userName = user_name u\<rparr>
                        (user_token u))]))"
proof (intro conjI allI impI)
  fix ls b
  assume "likes p = Some ls \<and> user_id u \<in> like_userId ` set ls \<and>
          removeLike gw planId (user_id u) (user_token u) = Inr b"
  then show "handleLike gw (Some u) planId st =
              (st\<lparr>learningPlans :=
                    map (\<lambda>q. if plan_id q = planId
                              then p\<lparr>likes := Some (filter (\<lambda>l. like_userId l \<noteq> user_id u) ls)\<rparr>
                              else q) (learningPlans st)\<rparr>,
               [Call (RemoveLike planId (user_id u) (user_token u))])"
    using handleLike_removes [OF found uniq] by blast
next
  fix r
  assume h: "user_id u \<notin> likers p \<and>
          addLike gw planId \<lparr>like_userId = user_id u, like_userName = user_name u\<rparr>
            (user_token u) = Inr r"
  then have "\<not> isLiked (learningPlans st) planId (user_id u)"
    by (simp add: isLiked_found [OF found])
  with h show "handleLike gw (Some u) planId st =
              (st\<lparr>learningPlans := map (\<lambda>q. if plan_id q = planId then r else q)
                                      (learningPlans st)\<rparr>,
               [Call (AddLike planId \<lparr>like_userId = user_id u, like_userName = user_name u\<rparr>
                        (user_token u))])"
    using handleLike_adds by blast
qed

text \<open>The scenario of the specification: the store is \<^verbatim>\<open>[{id:1, likes:[]}]\<close>, the viewer
  \<^verbatim>\<open>"u1"\<close> toggles, the gateway returns \<^verbatim>\<open>{id:1, likes:[{userId:"u1"}]}\<close>, and that
  is the store afterwards.  Toggling again gives the first store back.\<close>

theorem handleLike_reconciles_witness:
  "handleLike (server (plan1\<lparr>likes := Some [viewer_like]\<rparr>)) (Some viewer) (Num 1) (page [plan1])
     = (page [plan1\<lparr>likes := Some [viewer_like]\<rparr>],
        [Call (AddLike (Num 1) viewer_like ''t1'')])
   \<and> handleLike (server plan1) (Some viewer) (Num 1) (page [plan1\<lparr>likes := Some [viewer_like]\<rparr>])
     = (page [plan1], [Call (RemoveLike (Num 1) (Str ''u1'') ''t1'')])"
  using handleLike_reconciles
          [of "Num 1" "page [plan1]" plan1 viewer "server (plan1\<lparr>likes := Some [viewer_like]\<rparr>)"]
        handleLike_reconciles
          [of "Num 1" "page [plan1\<lparr>likes := Some [viewer_like]\<rparr>]"
              "plan1\<lparr>likes := Some [viewer_like]\<rparr>" viewer "server plan1"]
  by (simp add: page_def plan1_def viewer_def viewer_like_def server_def likers_def)

text \<open>C4.  An item is in the store, the ids of the store being unique, and a signed-in
  viewer toggles its like twice, each toggle running to its end.  Whenever the
  gateway answers both requests, and the item it returns for add-like carries the
  item's id and is liked by exactly those who liked the item when the request was
  sent plus the viewer, the item found under that id is afterwards liked by exactly
  the users who liked it at the start.\<close>

theorem like_toggle_twice:
  assumes found: "find (\<lambda>q. plan_id q = planId) (learningPlans st) = Some p"
      and uniq: "distinct (map plan_id (learningPlans st))"
  shows "(\<forall>r b. user_id u \<notin> likers p \<and>
            addLike gw1 planId \<lparr>like_userId = user_id u, like_userName = user_name u\<rparr>
              (user_token u) = Inr r \<and>
            plan_id r = planId \<and> likers r = insert (user_id u) (likers p) \<and>
            removeLike gw2 planId (user_id u) (user_token u) = Inr b \<longrightarrow>
          likers_of (learningPlans (fst (handleLike gw2 (Some u) planId
                       (fst (handleLike gw1 (Some u) planId st))))) planId = likers p)
       \<and> (\<forall>r b. user_id u \<in> likers p \<and>
            removeLike gw1 planId (user_id u) (user_token u) = Inr b \<and>
            addLike gw2 planId \<lparr>like_userId = user_id u, like_userName = user_name u\<rparr>
              (user_token u) = Inr r \<and>
            plan_id r = planId \<and> likers r = insert (user_id u) (likers p - {user_id u}) \<longrightarrow>
          likers_of (learningPlans (fst (handleLike gw2 (Some u) planId
                       (fst (handleLike gw1 (Some u) planId st))))) planId = likers p)"
  using toggle_add_then_remove [OF found uniq] toggle_remove_then_add [OF found uniq]
  by blast

theorem like_toggle_twice_witness:
  "likers_of (learningPlans (fst (handleLike (server plan1) (Some viewer) (Num 1)
      (fst (handleLike (server (plan1\<lparr>likes := Some [viewer_like]\<rparr>)) (Some viewer) (Num 1)
             (page [plan1, plan2])))))) (Num 1) = {}
   \<and> likers_of (learningPlans (fst (handleLike (server (plan1\<lparr>likes := Some [viewer_like]\<rparr>))
      (Some viewer) (Num 1)
      (fst (handleLike (server plan1) (Some viewer) (Num 1)
             (page [plan1\<lparr>likes := Some [viewer_like]\<rparr>, plan2])))))) (Num 1) = {Str ''u1''}"
  using like_toggle_twice
          [of "Num 1" "page [plan1, plan2]" plan1 viewer
              "server (plan1\<lparr>likes := Some [viewer_like]\<rparr>)" "server plan1"]
        like_toggle_twice
          [of "Num 1" "page [plan1\<lparr>likes := Some [viewer_like]\<rparr>, plan2]"
              "plan1\<lparr>likes := Some [viewer_like]\<rparr>" viewer
              "server plan1" "server (plan1\<lparr>likes := Some [viewer_like]\<rparr>)"]
  by (simp add: page_def plan1_def plan2_def viewer_def viewer_like_def server_def likers_def)

section \<open>Patching by id\<close>

lemma frame_kept_patch:
  assumes wf: "\<forall>r\<in>set rs. r < length h"
  shows "frame_kept get_id i (h, rs) (set_store rs (patchById_refs get_id i upd rs h))"
proof -
  obtain h' res where p: "patchById_refs get_id i upd rs h = (h', res)"
    by (cases "patchById_refs get_id i upd rs h") auto
  from patchById_refs_grows [of get_id i upd rs h] p
  have pre: "take (length h) h' = h" by auto
  have obj: "h' ! (rs ! k) = h ! (rs ! k)" if "k < length rs" for k
  proof -
    from that wf have "rs ! k < length h" by simp
    with pre show ?thesis by (metis nth_take)
  qed
  show ?thesis
  proof (cases res)
    case (Inl e)
    with p pre obj show ?thesis by (simp add: frame_kept_def set_store_def)
  next
    case (Inr rs')
    from patchById_refs_frame [OF p [unfolded Inr] wf]
    have len: "length rs' = length rs"
      and same: "\<And>k. k < length rs \<Longrightarrow> get_id (h ! (rs ! k)) \<noteq> i \<Longrightarrow> rs' ! k = rs ! k"
      by auto
    with p Inr pre obj show ?thesis by (simp add: frame_kept_def set_store_def)
  qed
qed

lemma frame_kept_longer:
  assumes "frame_kept get_id i (h @ new, rs) after" and wf: "\<forall>r\<in>set rs. r < length h"
  shows "frame_kept get_id i (h, rs) after"
proof -
  have old: "(h @ new) ! (rs ! k) = h ! (rs ! k)" if "k < length rs" for k
    using that wf by (simp add: nth_append)
  from assms(1) have "take (length h) (take (length (h @ new)) (fst after)) = take (length h) (h @ new)"
    by (simp add: frame_kept_def)
  then have "take (length h) (fst after) = h" by (simp add: min_def)
  with assms(1) old show ?thesis unfolding frame_kept_def fst_conv snd_conv by metis
qed

text \<open>The patch on references computes what the patch on values computes: reading
  the new store through the new heap gives the list the page's handler produces.\<close>

lemma handleUpdateComment_refs_value:
  assumes wf: "\<forall>r\<in>set rs. r < length h" and st: "learningPlans st = map ((!) h) rs"
  shows "map ((!) (fst (handleUpdateComment_refs now planId commentId updatedContent (h, rs))))
           (snd (handleUpdateComment_refs now planId commentId updatedContent (h, rs)))
         = learningPlans (fst (handleUpdateComment now planId commentId updatedContent st))"
proof -
  let ?f = "withUpdatedComment commentId updatedContent now"
  obtain h' res where p: "patchById_refs plan_id planId (literal ?f) rs h = (h', res)"
    by (cases "patchById_refs plan_id planId (literal ?f) rs h") auto
  from patchById_refs_grows [of plan_id planId "literal ?f" rs h] p
  have pre: "take (length h) h' = h" by auto
  have "h' ! r = h ! r" if "r \<in> set rs" for r
    using that wf pre by (metis nth_take)
  then have old: "map ((!) h') rs = map ((!) h) rs" by simp
  from patchById_refs_value [OF wf, of plan_id planId ?f] p
  show ?thesis
    by (cases res)
       (simp_all add: handleUpdateComment_refs_def handleUpdateComment_def set_store_def st old)
qed

text \<open>C3.  For every heap, every store of references into it, every id and every
  updater, the patch by id changes no object that existed, and the new store holds,
  wherever the item's id is not the given one, the very reference the old store held,
  to the very same object.  So it is for the two comment patches of the learning-plan
  page and for the item update of the resources page, also when the patch throws and
  the store stays as it was.\<close>

theorem patchById_keeps_frame:
  "(list_all (\<lambda>r. r < length h) rs \<longrightarrow>
      frame_kept get_id i (h, rs) (set_store rs (patchById_refs get_id i upd rs h)))
   \<and> (list_all (\<lambda>r. r < length hp) rp \<longrightarrow>
      frame_kept plan_id planId (hp, rp)
        (handleUpdateComment_refs now planId commentId updatedContent (hp, rp)))
   \<and> (list_all (\<lambda>r. r < length hp) rp \<longrightarrow>
      frame_kept plan_id planId (hp, rp) (handleDeleteComment_refs planId commentId (hp, rp)))
   \<and> (list_all (\<lambda>r. r < length hr) rr \<longrightarrow>
      frame_kept resource_id editing (hr, rr) (resources_update_refs editing data (hr, rr)))"
proof (intro conjI impI)
  assume "list_all (\<lambda>r. r < length h) rs"
  then show "frame_kept get_id i (h, rs) (set_store rs (patchById_refs get_id i upd rs h))"
    by (intro frame_kept_patch) (simp add: list_all_iff)
next
  assume "list_all (\<lambda>r. r < length hp) rp"
  then have wf: "\<forall>r\<in>set rp. r < length hp" by (simp add: list_all_iff)
  from frame_kept_patch [OF wf]
  show "frame_kept plan_id planId (hp, rp)
          (handleUpdateComment_refs now planId commentId updatedContent (hp, rp))"
    by (simp add: handleUpdateComment_refs_def)
  from frame_kept_patch [OF wf]
  show "frame_kept plan_id planId (hp, rp) (handleDeleteComment_refs planId commentId (hp, rp))"
    by (simp add: handleDeleteComment_refs_def)
next
  assume "list_all (\<lambda>r. r < length hr) rr"
  then have wf: "\<forall>r\<in>set rr. r < length hr" by (simp add: list_all_iff)
  then have wf1: "\<forall>r\<in>set rr. r < length (hr @ [data])" by auto
  from frame_kept_patch [OF wf1]
  have "frame_kept resource_id editing (hr @ [data], rr)
          (resources_update_refs editing data (hr, rr))"
    by (simp add: resources_update_refs_def alloc_def)
  from frame_kept_longer [OF this wf]
  show "frame_kept resource_id editing (hr, rr) (resources_update_refs editing data (hr, rr))" .
qed

theorem patchById_keeps_frame_witness:
  "handleUpdateComment_refs 9 (Num 1) (Num 10) edited ([plan1, plan2], [0, 1])
     = ([plan1, plan2,
         plan1\<lparr>comments := Some [comment1\<lparr>comment_content := edited, comment_updatedAt := 9\<rparr>,
                                   comment2]\<rparr>],
        [2, 1])
   \<and> snd (handleDeleteComment_refs (Num 1) (Num 10) ([plan1, plan2], [0, 1])) ! 1 = 1
   \<and> take 2 (fst (handleDeleteComment_refs (Num 1) (Num 10) ([plan1, plan2], [0, 1])))
       = [plan1, plan2]
   \<and> resources_update_refs (Num 1) resource1 ([resource1, resource2], [0, 1])
       = ([resource1, resource2, resource1], [2, 1])"
  using patchById_keeps_frame
          [of "[plan1, plan2]" "[0, 1]" plan_id "Num 1" "\<lambda>p. Inr (Existing 0)"
              "[plan1, plan2]" "[0, 1]" "Num 1" 9 "Num 10" edited
              "[resource1, resource2]" "[0, 1]" "Num 1" resource1]
  by (simp add: frame_kept_def handleUpdateComment_refs_def handleDeleteComment_refs_def
        resources_update_refs_def set_store_def push_ref_def alloc_def literal_def
        withUpdatedComment_def withoutComment_def
        plan1_def plan2_def comment1_def comment2_def resource1_def resource2_def)

section \<open>Gateway failures\<close>







lemma ConfirmModal_confirm:
  "ConfirmModal True onClose onConfirm ConfirmButton = andThen onConfirm onClose"
  by (rule ext) (simp add: ConfirmModal_def)

lemma ConfirmModal_dismiss:
  "b \<noteq> ConfirmButton \<Longrightarrow> ConfirmModal True onClose onConfirm b = onClose"
  by (rule ext) (cases b; simp add: ConfirmModal_def)

text \<open>What a click on the open delete dialog of the learning-plan page does.\<close>

lemma modal_click_confirm:
  "modal_click gw ConfirmButton (fst (handleDelete currentUser planId st)) =
     (case currentUser of
        None \<Rightarrow>
          (st\<lparr>modalState :=
                \<lparr>isOpen = False,
                 config = delete_plan_dialog (DeletePlanCallback planId (learningPlans st) None)\<rparr>\<rparr>,
           [ConsoleError ''Error deleting learning plan:'',
            Toast (Error ''Failed to delete learning plan''), CloseModal])
      | Some u \<Rightarrow>
          (case deleteLearningPlan gw planId (user_token u) of
             Inr b \<Rightarrow>
               (st\<lparr>learningPlans := filter (\<lambda>plan. plan_id plan \<noteq> planId) (learningPlans st),
                   modalState :=
                     \<lparr>isOpen = False,
                      config = delete_plan_dialog
                                 (DeletePlanCallback planId (learningPlans st) (Some u))\<rparr>\<rparr>,
                [Call (DeleteLearningPlan planId (user_token u)), CloseModal,
                 Toast (Success ''Learning plan deleted'')])
           | Inl e \<Rightarrow>
               (st\<lparr>modalState :=
                     \<lparr>isOpen = False,
                      config = delete_plan_dialog
                                 (DeletePlanCallback planId (learningPlans st) (Some u))\<rparr>\<rparr>,
                [Call (DeleteLearningPlan planId (user_token u)), CloseModal,
                 ConsoleError ''Error deleting learning plan:'',
                 Toast (Error ''Failed to delete learning plan'')])))"
  by (simp add: modal_click_def handleDelete_def openModal_def closeModal_def
        ConfirmModal_confirm andThen_def modal_onClose_def delete_plan_dialog_def
        split: option.splits sum.splits)

lemma modal_click_dismiss:
  "b \<noteq> ConfirmButton \<Longrightarrow>
   modal_click gw b (fst (handleDelete currentUser planId st)) =
     (st\<lparr>modalState :=
           \<lparr>isOpen = False,
            config = delete_plan_dialog
                       (DeletePlanCallback planId (learningPlans st) currentUser)\<rparr>\<rparr>,
      [CloseModal])"
  by (simp add: modal_click_def handleDelete_def openModal_def closeModal_def
        ConfirmModal_dismiss andThen_def modal_onClose_def skip_def)











section \<open>No current user\<close>








section \<open>Deleting\<close>

text \<open>The learning-plan page and the resources page ask before they delete.  Asking to
  delete a plan only opens the dialog; a click on anything but the confirm button closes it and
  changes nothing; a confirmed delete that succeeds removes the items with that id from
  the list the dialog was opened on; one that fails leaves the store and notifies.  The
  resources page asks through \<^verbatim>\<open>window.confirm\<close> before it sends anything.\<close>

lemma handleDelete_opens:
  "handleDelete currentUser planId st =
     (st\<lparr>modalState := \<lparr>isOpen = True,
                          config = delete_plan_dialog
                                     (DeletePlanCallback planId (learningPlans st) currentUser)\<rparr>\<rparr>,
      [OpenModal])"
  by (simp add: handleDelete_def openModal_def)

lemma delete_cancelled:
  "b \<noteq> ConfirmButton \<Longrightarrow>
   learningPlans (fst (modal_click gw b (fst (handleDelete currentUser planId st)))) = learningPlans st
   \<and> snd (modal_click gw b (fst (handleDelete currentUser planId st))) = [CloseModal]"
  by (simp add: modal_click_dismiss)

lemma delete_confirmed:
  "deleteLearningPlan gw planId (user_token u) = Inr body \<Longrightarrow>
   learningPlans (fst (modal_click gw ConfirmButton (fst (handleDelete (Some u) planId st))))
     = filter (\<lambda>plan. plan_id plan \<noteq> planId) (learningPlans st)
   \<and> snd (modal_click gw ConfirmButton (fst (handleDelete (Some u) planId st)))
     = [Call (DeleteLearningPlan planId (user_token u)), CloseModal,
        Toast (Success ''Learning plan deleted'')]"
  by (simp add: modal_click_confirm)

lemma delete_failed:
  "deleteLearningPlan gw planId (user_token u) = Inl e \<Longrightarrow>
   learningPlans (fst (modal_click gw ConfirmButton (fst (handleDelete (Some u) planId st))))
     = learningPlans st
   \<and> snd (modal_click gw ConfirmButton (fst (handleDelete (Some u) planId st)))
     = [Call (DeleteLearningPlan planId (user_token u)), CloseModal,
        ConsoleError ''Error deleting learning plan:'',
        Toast (Error ''Failed to delete learning plan'')]"
  by (simp add: modal_click_confirm)

lemma resources_delete_asks_first:
  "resources_handleDelete rx currentUser False i rst =
     (rst, [WindowConfirm ''Are you sure you want to delete this resource?''])"
  "axios_delete rx (resources_baseUrl @ [Lit ''/'', Val i, Lit ''/user/'', Val (user_id u)]) = Inr rbody
   \<Longrightarrow> resources_handleDelete rx (Some u) True i rst =
     (rst\<lparr>resources := filter (\<lambda>r. resource_id r \<noteq> i) (resources rst)\<rparr>,
      [WindowConfirm ''Are you sure you want to delete this resource?'',
       Call (AxiosDelete (resources_baseUrl @ [Lit ''/'', Val i, Lit ''/user/'', Val (user_id u)])),
       Toast (Success ''Resource deleted'')])"
  by (simp_all add: resources_handleDelete_def)

text \<open>C6 fails on the events page.  Its delete handler asks nothing: for a signed-in
  user the request is the first thing that happens, and the event is gone.\<close>

theorem events_delete_unconfirmed:
  "events_handleDelete accepting (Some viewer) (Num 1) (events_page [event1])
     = (events_page [],
        [Call (AxiosDelete [Lit ''/events'', Lit ''/'', Val (Num 1), Lit ''/user/'', Val (Str ''u1'')]),
         Toast (Success ''Event deleted successfully!'')])"
  by (simp add: events_handleDelete_def accepting_def events_page_def event1_def viewer_def
        events_baseUrl_def)

section \<open>The modal\<close>

text \<open>C8.  The confirm button runs the captured callback first and closes the modal
  after it: what the click does is what the callback does, then what closing does to
  the state the callback left.  On the learning-plan page the delete request of the
  callback is sent before the modal is told to close, and every click on the open
  modal leaves it closed.  Opening the modal while a configuration is held replaces
  that configuration: there is one configuration, the last one, and confirming runs
  its callback only.\<close>

theorem confirm_runs_callback_then_closes:
  "snd (ConfirmModal True onClose onConfirm ConfirmButton s)
     = snd (onConfirm s) @ snd (onClose (fst (onConfirm s)))
   \<and> fst (ConfirmModal True onClose onConfirm ConfirmButton s) = fst (onClose (fst (onConfirm s)))
   \<and> take 2 (snd (modal_click gw ConfirmButton (fst (handleDelete (Some u) planId st))))
       = [Call (DeleteLearningPlan planId (user_token u)), CloseModal]
   \<and> isOpen (modalState (fst (modal_click gw b (fst (handleDelete currentUser planId st))))) = False
   \<and> openModal c2 (openModal c1 m) = openModal c2 m
   \<and> config (modalState (fst (handleDelete currentUser planId (fst (handleDelete cu1 id1 st)))))
       = delete_plan_dialog (DeletePlanCallback planId (learningPlans st) currentUser)
   \<and> calls (snd (modal_click gw ConfirmButton
                   (fst (handleDelete (Some u) planId (fst (handleDelete cu1 id1 st))))))
       = [Call (DeleteLearningPlan planId (user_token u))]"
proof (intro conjI)
  show "snd (ConfirmModal True onClose onConfirm ConfirmButton s)
          = snd (onConfirm s) @ snd (onClose (fst (onConfirm s)))"
    by (simp add: ConfirmModal_def andThen_def split: prod.splits)
  show "fst (ConfirmModal True onClose onConfirm ConfirmButton s) = fst (onClose (fst (onConfirm s)))"
    by (simp add: ConfirmModal_def andThen_def split: prod.splits)
  show "take 2 (snd (modal_click gw ConfirmButton (fst (handleDelete (Some u) planId st))))
          = [Call (DeleteLearningPlan planId (user_token u)), CloseModal]"
    by (simp add: modal_click_confirm split: sum.splits)
  show "isOpen (modalState (fst (modal_click gw b (fst (handleDelete currentUser planId st))))) = False"
    by (cases "b = ConfirmButton")
       (simp_all add: modal_click_confirm modal_click_dismiss split: option.splits sum.splits)
  show "openModal c2 (openModal c1 m) = openModal c2 m"
    by (simp add: openModal_def)
  show "config (modalState (fst (handleDelete currentUser planId (fst (handleDelete cu1 id1 st)))))
          = delete_plan_dialog (DeletePlanCallback planId (learningPlans st) currentUser)"
    by (simp add: handleDelete_def openModal_def)
  have "learningPlans (fst (handleDelete cu1 id1 st)) = learningPlans st"
    by (simp add: handleDelete_def)
  then show "calls (snd (modal_click gw ConfirmButton
                   (fst (handleDelete (Some u) planId (fst (handleDelete cu1 id1 st))))))
          = [Call (DeleteLearningPlan planId (user_token u))]"
    by (simp add: modal_click_confirm calls_def split: sum.splits)
qed

section \<open>The list response of the resources page\<close>

text \<open>C10, as stated, fails for the body \<^verbatim>\<open>null\<close>: it is neither an array nor an object
  with a \<^verbatim>\<open>resources\<close> array, yet the store is not set to the empty list.  Reading
  \<^verbatim>\<open>data.resources\<close> throws, the \<^verbatim>\<open>catch\<close> runs, and the store keeps what it held.\<close>

theorem fetch_null_body_keeps_store:
  "axios_get (answering DNull) resources_baseUrl = Inr DNull
   \<and> resources (fst (fetchResources (answering DNull) (resources_page [resource1]))) = [resource1]
   \<and> resources (fst (fetchResources (answering DNull) (resources_page [resource1]))) \<noteq> []
   \<and> snd (fetchResources (answering DNull) (resources_page [resource1]))
       = [Call (AxiosGet resources_baseUrl), Toast (Error ''Failed to load resources'')]"
  by (simp add: fetchResources_def answering_def resources_page_def)

text \<open>C10, amended.  For every response body other than \<^verbatim>\<open>null\<close>: an array becomes the
  store; an object whose \<^verbatim>\<open>resources\<close> field is an array has that array become the
  store; anything else makes the store the empty list.  For the body \<^verbatim>\<open>null\<close> the store
  is left as it was and the failure is notified.\<close>

theorem fetchResources_normalises:
  assumes "axios_get rx resources_baseUrl = Inr body"
  shows "(\<forall>xs. body = DArray xs \<longrightarrow> resources (fst (fetchResources rx st)) = xs)
       \<and> (\<forall>props xs. body = DObject props \<and> map_of props ''resources'' = Some (DArray xs) \<longrightarrow>
            resources (fst (fetchResources rx st)) = xs)
       \<and> (body \<noteq> DNull \<and> (\<forall>xs. body \<noteq> DArray xs) \<and>
          (\<forall>props xs. body = DObject props \<longrightarrow> map_of props ''resources'' \<noteq> Some (DArray xs)) \<longrightarrow>
            resources (fst (fetchResources rx st)) = [])
       \<and> (body = DNull \<longrightarrow>
            resources (fst (fetchResources rx st)) = resources st \<and>
            snd (fetchResources rx st)
              = [Call (AxiosGet resources_baseUrl), Toast (Error ''Failed to load resources'')])"
proof (intro conjI allI impI)
  fix xs assume "body = DArray xs"
  with assms show "resources (fst (fetchResources rx st)) = xs"
    by (simp add: fetchResources_def)
next
  fix props xs assume "body = DObject props \<and> map_of props ''resources'' = Some (DArray xs)"
  with assms show "resources (fst (fetchResources rx st)) = xs"
    by (simp add: fetchResources_def)
next
  assume h: "body \<noteq> DNull \<and> (\<forall>xs. body \<noteq> DArray xs) \<and>
          (\<forall>props xs. body = DObject props \<longrightarrow> map_of props ''resources'' \<noteq> Some (DArray xs))"
  then have "resource_list body = Inr []"
    by (cases body) (auto split: option.splits data.splits)
  with assms show "resources (fst (fetchResources rx st)) = []"
    by (simp add: fetchResources_def)
next
  assume "body = DNull"
  with assms show "resources (fst (fetchResources rx st)) = resources st"
    and "snd (fetchResources rx st)
              = [Call (AxiosGet resources_baseUrl), Toast (Error ''Failed to load resources'')]"
    by (simp_all add: fetchResources_def)
qed

theorem fetchResources_normalises_witness:
  "resources (fst (fetchResources (answering (DArray [resource1, resource2])) (resources_page [])))
     = [resource1, resource2]
   \<and> resources (fst (fetchResources
        (answering (DObject [(''total'', DOther), (''resources'', DArray [resource2])]))
        (resources_page [resource1]))) = [resource2]
   \<and> resources (fst (fetchResources (answering (DObject [(''resources'', DOther)]))
        (resources_page [resource1]))) = []
   \<and> resources (fst (fetchResources (answering DOther) (resources_page [resource1]))) = []
   \<and> resources (fst (fetchResources (answering DNull) (resources_page [resource1]))) = [resource1]"
  using fetchResources_normalises
          [of "answering (DArray [resource1, resource2])" "DArray [resource1, resource2]"
              "resources_page []"]
        fetchResources_normalises
          [of "answering (DObject [(''total'', DOther), (''resources'', DArray [resource2])])"
              "DObject [(''total'', DOther), (''resources'', DArray [resource2])]"
              "resources_page [resource1]"]
        fetchResources_normalises
          [of "answering (DObject [(''resources'', DOther)])" "DObject [(''resources'', DOther)]"
              "resources_page [resource1]"]
        fetchResources_normalises [of "answering DOther" DOther "resources_page [resource1]"]
        fetchResources_normalises [of "answering DNull" DNull "resources_page [resource1]"]
  by (simp add: answering_def resources_page_def)

section \<open>Comments\<close>

lemma handleUpdateComment_unique:
  assumes found: "find (\<lambda>q. plan_id q = planId) (learningPlans st) = Some p"
      and uniq: "distinct (map plan_id (learningPlans st))"
      and cs: "comments p = Some cs"
  shows "handleUpdateComment now planId commentId updatedContent st =
           (st\<lparr>learningPlans :=
                 map (\<lambda>q. if plan_id q = planId
                           then p\<lparr>comments :=
                                    Some (map (\<lambda>c. if comment_id c = commentId
                                                    then c\<lparr>comment_content := updatedContent,
                                                           comment_updatedAt := now\<rparr>
                                                    else c) cs)\<rparr>
                           else q) (learningPlans st)\<rparr>, [])"
proof -
  have "withUpdatedComment commentId updatedContent now p =
          Inr (p\<lparr>comments :=
                    Some (map (\<lambda>c. if comment_id c = commentId
                                    then c\<lparr>comment_content := updatedContent,
                                           comment_updatedAt := now\<rparr>
                                    else c) cs)\<rparr>)"
    using cs by (simp add: withUpdatedComment_def)
  from patch_unique [where upd = "withUpdatedComment commentId updatedContent now",
                     OF found uniq this]
  show ?thesis by (simp add: handleUpdateComment_def)
qed

lemma handleDeleteComment_unique:
  assumes found: "find (\<lambda>q. plan_id q = planId) (learningPlans st) = Some p"
      and uniq: "distinct (map plan_id (learningPlans st))"
      and cs: "comments p = Some cs"
  shows "handleDeleteComment planId commentId st =
           (st\<lparr>learningPlans :=
                 map (\<lambda>q. if plan_id q = planId
                           then p\<lparr>comments := Some (filter (\<lambda>c. comment_id c \<noteq> commentId) cs)\<rparr>
                           else q) (learningPlans st)\<rparr>, [])"
proof -
  have "withoutComment commentId p =
          Inr (p\<lparr>comments := Some (filter (\<lambda>c. comment_id c \<noteq> commentId) cs)\<rparr>)"
    using cs by (simp add: withoutComment_def)
  from patch_unique [where upd = "withoutComment commentId", OF found uniq this]
  show ?thesis by (simp add: handleDeleteComment_def)
qed

lemma delete_request_known:
  "delete_request gw ty postId cid uid tok = Some x \<Longrightarrow> known_type ty"
  by (auto simp: delete_request_def known_type_def split: if_splits)

text \<open>C7.  Adding a comment is server-authoritative: when the gateway answers, every
  item with the plan's id is replaced by the item of the response.  Updating and
  deleting a comment are local: when the gateway answers, whatever the body of its
  answer, the comment component calls the page's handler, which patches the comments
  of the plan in place by the comment's id: the content and the update time are
  replaced, or the comment is filtered out.  The store after the patch does not depend
  on the response.\<close>

theorem comment_policies:
  assumes found: "find (\<lambda>q. plan_id q = prop_postId props) (learningPlans (parent cst)) = Some p"
      and uniq: "distinct (map plan_id (learningPlans (parent cst)))"
      and cs: "comments p = Some cs"
  shows "(\<forall>data. addComment gw planId commentData (user_token u) = Inr data \<longrightarrow>
            handleAddComment gw (Some u) planId commentData st =
              (st\<lparr>learningPlans := map (\<lambda>q. if plan_id q = planId then data else q)
                                      (learningPlans st)\<rparr>,
               [Call (AddComment planId commentData (user_token u))]))
       \<and> (\<forall>req body. trim updatedContent \<noteq> [] \<and>
            update_request gw (prop_commentType props) (prop_postId props)
              (comment_id (prop_comment props))
              ((prop_comment props)\<lparr>comment_content := updatedContent, comment_updatedAt := now1\<rparr>)
              (prop_token props) = Some (req, Inr body) \<longrightarrow>
            comment_handleUpdate gw props (handleUpdateComment now2) now1 updatedContent cst =
              (cst\<lparr>parent := (parent cst)\<lparr>learningPlans :=
                       map (\<lambda>q. if plan_id q = prop_postId props
                                 then p\<lparr>comments :=
                                        Some (map (\<lambda>c. if comment_id c = comment_id (prop_comment props)
                                                        then c\<lparr>comment_content := updatedContent,
                                                               comment_updatedAt := now2\<rparr>
                                                        else c) cs)\<rparr>
                                 else q) (learningPlans (parent cst))\<rparr>,
                    isEditing := False\<rparr>,
               [Call req, Toast (Success ''Comment updated'')]))
       \<and> (\<forall>v req body. prop_currentUser props = Some v \<and>
            delete_request gw (prop_commentType props) (prop_postId props)
              (comment_id (prop_comment props)) (user_id v) (prop_token props)
              = Some (req, Inr body) \<longrightarrow>
            comment_modal_click gw handleDeleteComment ConfirmButton
                (fst (comment_handleDelete props cst)) =
              (cst\<lparr>parent := (parent cst)\<lparr>learningPlans :=
                       map (\<lambda>q. if plan_id q = prop_postId props
                                 then p\<lparr>comments :=
                                        Some (filter (\<lambda>c. comment_id c \<noteq> comment_id (prop_comment props))
                                                cs)\<rparr>
                                 else q) (learningPlans (parent cst))\<rparr>,
                    isDeleting := False,
                    commentModal := \<lparr>isOpen = False,
                                      config = delete_comment_dialog (DeleteCommentCallback props)\<rparr>\<rparr>,
               [Call req, CloseModal, Toast (Success ''Comment deleted'')]))"
proof (intro conjI allI impI)
  fix data
  assume "addComment gw planId commentData (user_token u) = Inr data"
  then show "handleAddComment gw (Some u) planId commentData st =
              (st\<lparr>learningPlans := map (\<lambda>q. if plan_id q = planId then data else q)
                                      (learningPlans st)\<rparr>,
               [Call (AddComment planId commentData (user_token u))])"
    by (simp add: handleAddComment_def patch_replace)
next
  fix req body
  assume h: "trim updatedContent \<noteq> [] \<and>
            update_request gw (prop_commentType props) (prop_postId props)
              (comment_id (prop_comment props))
              ((prop_comment props)\<lparr>comment_content := updatedContent, comment_updatedAt := now1\<rparr>)
              (prop_token props) = Some (req, Inr body)"
  from handleUpdateComment_unique [OF found uniq cs] h
  show "comment_handleUpdate gw props (handleUpdateComment now2) now1 updatedContent cst =
              (cst\<lparr>parent := (parent cst)\<lparr>learningPlans :=
                       map (\<lambda>q. if plan_id q = prop_postId props
                                 then p\<lparr>comments :=
                                        Some (map (\<lambda>c. if comment_id c = comment_id (prop_comment props)
                                                        then c\<lparr>comment_content := updatedContent,
                                                               comment_updatedAt := now2\<rparr>
                                                        else c) cs)\<rparr>
                                 else q) (learningPlans (parent cst))\<rparr>,
                    isEditing := False\<rparr>,
               [Call req, Toast (Success ''Comment updated'')])"
    by (simp add: comment_handleUpdate_def)
next
  fix v req body
  assume h: "prop_currentUser props = Some v \<and>
            delete_request gw (prop_commentType props) (prop_postId props)
              (comment_id (prop_comment props)) (user_id v) (prop_token props)
              = Some (req, Inr body)"
  then have known: "known_type (prop_commentType props)"
    using delete_request_known by blast
  let ?cst1 = "fst (comment_handleDelete props cst)"
  have opened: "?cst1 = cst\<lparr>commentModal :=
                   \<lparr>isOpen = True, config = delete_comment_dialog (DeleteCommentCallback props)\<rparr>\<rparr>"
    by (simp add: comment_handleDelete_def openModal_def)
  from handleDeleteComment_unique [OF found uniq cs] h known
  show "comment_modal_click gw handleDeleteComment ConfirmButton ?cst1 =
              (cst\<lparr>parent := (parent cst)\<lparr>learningPlans :=
                       map (\<lambda>q. if plan_id q = prop_postId props
                                 then p\<lparr>comments :=
                                        Some (filter (\<lambda>c. comment_id c \<noteq> comment_id (prop_comment props))
                                                cs)\<rparr>
                                 else q) (learningPlans (parent cst))\<rparr>,
                    isDeleting := False,
                    commentModal := \<lparr>isOpen = False,
                                      config = delete_comment_dialog (DeleteCommentCallback props)\<rparr>\<rparr>,
               [Call req, CloseModal, Toast (Success ''Comment deleted'')])"
    unfolding opened
    by (simp add: comment_modal_click_def ConfirmModal_confirm andThen_def
          comment_modal_onClose_def closeModal_def delete_comment_dialog_def)
qed

theorem comment_policies_witness:
  "handleAddComment
       (server (plan1\<lparr>comments := Some [comment1, comment2, comment1\<lparr>comment_id := Num 12\<rparr>]\<rparr>))
       (Some viewer) (Num 1) comment_data1 (page [plan1, plan2])
     = (page [plan1\<lparr>comments := Some [comment1, comment2, comment1\<lparr>comment_id := Num 12\<rparr>]\<rparr>, plan2],
        [Call (AddComment (Num 1) comment_data1 ''t1'')])
   \<and> comment_handleUpdate (server plan2) comment1_props (handleUpdateComment 8) 7 edited
       (comment_view [plan1, plan2])
     = ((comment_view
           [plan1\<lparr>comments := Some [comment1\<lparr>comment_content := edited, comment_updatedAt := 8\<rparr>,
                                     comment2]\<rparr>, plan2])\<lparr>isEditing := False\<rparr>,
        [Call (UpdateLearningPlanComment (Num 1) (Num 10)
                 (comment1\<lparr>comment_content := edited, comment_updatedAt := 7\<rparr>) (Some ''t1'')),
         Toast (Success ''Comment updated'')])
   \<and> learningPlans (parent (fst (comment_modal_click (server plan2) handleDeleteComment ConfirmButton
        (fst (comment_handleDelete comment1_props (comment_view [plan1, plan2]))))))
     = [plan1\<lparr>comments := Some [comment2]\<rparr>, plan2]
   \<and> snd (comment_modal_click (server plan2) handleDeleteComment ConfirmButton
        (fst (comment_handleDelete comment1_props (comment_view [plan1, plan2]))))
     = [Call (DeleteLearningPlanComment (Num 1) (Num 10) (Str ''u1'') (Some ''t1'')), CloseModal,
        Toast (Success ''Comment deleted'')]"
proof -
  have t: "trim edited \<noteq> []"
    by (simp add: edited_def utf16_def trim_def is_space_def)
  from comment_policies
         [where props = comment1_props and cst = "comment_view [plan1, plan2]" and p = plan1
            and cs = "[comment1, comment2]"
            and gw = "server (plan1\<lparr>comments := Some [comment1, comment2,
                                                       comment1\<lparr>comment_id := Num 12\<rparr>]\<rparr>)"
            and planId = "Num 1" and commentData = comment_data1 and u = viewer
            and st = "page [plan1, plan2]"]
  have a: "handleAddComment
       (server (plan1\<lparr>comments := Some [comment1, comment2, comment1\<lparr>comment_id := Num 12\<rparr>]\<rparr>))
       (Some viewer) (Num 1) comment_data1 (page [plan1, plan2])
     = (page [plan1\<lparr>comments := Some [comment1, comment2, comment1\<lparr>comment_id := Num 12\<rparr>]\<rparr>, plan2],
        [Call (AddComment (Num 1) comment_data1 ''t1'')])"
    by (simp add: comment1_props_def comment_view_def page_def plan1_def plan2_def server_def
          viewer_def)
  from comment_policies
         [where props = comment1_props and cst = "comment_view [plan1, plan2]" and p = plan1
            and cs = "[comment1, comment2]" and gw = "server plan2"
            and updatedContent = edited and ?now1.0 = 7 and ?now2.0 = 8] t
  have b: "comment_handleUpdate (server plan2) comment1_props (handleUpdateComment 8) 7 edited
       (comment_view [plan1, plan2])
     = ((comment_view
           [plan1\<lparr>comments := Some [comment1\<lparr>comment_content := edited, comment_updatedAt := 8\<rparr>,
                                     comment2]\<rparr>, plan2])\<lparr>isEditing := False\<rparr>,
        [Call (UpdateLearningPlanComment (Num 1) (Num 10)
                 (comment1\<lparr>comment_content := edited, comment_updatedAt := 7\<rparr>) (Some ''t1'')),
         Toast (Success ''Comment updated'')])"
    by (simp add: comment1_props_def comment_view_def page_def plan1_def plan2_def server_def
          update_request_def comment1_def comment2_def)
  from comment_policies
         [where props = comment1_props and cst = "comment_view [plan1, plan2]" and p = plan1
            and cs = "[comment1, comment2]" and gw = "server plan2"]
  have c: "comment_modal_click (server plan2) handleDeleteComment ConfirmButton
        (fst (comment_handleDelete comment1_props (comment_view [plan1, plan2])))
     = ((comment_view [plan1, plan2])
          \<lparr>parent := (page [plan1, plan2])\<lparr>learningPlans := [plan1\<lparr>comments := Some [comment2]\<rparr>, plan2]\<rparr>,
           isDeleting := False,
           commentModal := \<lparr>isOpen = False,
                             config = delete_comment_dialog (DeleteCommentCallback comment1_props)\<rparr>\<rparr>,
        [Call (DeleteLearningPlanComment (Num 1) (Num 10) (Str ''u1'') (Some ''t1'')), CloseModal,
         Toast (Success ''Comment deleted'')])"
    by (simp add: comment1_props_def comment_view_def page_def plan1_def plan2_def server_def
          delete_request_def comment1_def comment2_def viewer_def)
  from a b show ?thesis unfolding c by simp
qed

section \<open>Invariants of the store\<close>






























end
